theory Spec2Isabelle
  imports Main
begin

section \<open>Data model (app/models.py)\<close>

text \<open>
  Python's unbounded integers are \<open>int\<close>, primary keys are \<open>nat\<close>, strings are
  \<open>string\<close>, a nullable column or an optional dictionary entry is an \<open>option\<close>.
  A \<open>datetime\<close> is kept as a number of seconds.
\<close>

type_synonym datetime = int

datatype PlatformEnum = TIKTOK | INSTAGRAM | YOUTUBE

fun platform_value :: "PlatformEnum \<Rightarrow> string" where
  "platform_value TIKTOK = ''tiktok''"
| "platform_value INSTAGRAM = ''instagram''"
| "platform_value YOUTUBE = ''youtube''"

datatype JobStatusEnum = PENDING | RUNNING | COMPLETED | FAILED

text \<open>
  Exceptions are values. \<open>ExternalError\<close> is whatever an external collaborator (the
  search provider, the downloader, the speech model, the spreadsheet API, the store)
  raises; the other constructors are the exceptions the sources raise themselves or
  provoke in the Python runtime.
\<close>

datatype exn =
    ValueError string
  | FileNotFoundError string
  | OSError string
  | AttributeError string
  | WorksheetNotFound string
  | ExternalError string

fun str_exn :: "exn \<Rightarrow> string" where
  "str_exn (ValueError m) = m"
| "str_exn (FileNotFoundError m) = m"
| "str_exn (OSError m) = m"
| "str_exn (AttributeError m) = m"
| "str_exn (WorksheetNotFound m) = m"
| "str_exn (ExternalError m) = m"

record User =
  u_id :: nat
  u_google_sheet_id :: "string option"

record UserSettings =
  s_user_id :: nat
  s_min_likes :: int
  s_min_views :: int
  s_date_filter :: string

record Keyword =
  k_id :: nat
  k_user_id :: nat
  k_keyword :: string
  k_platform :: PlatformEnum
  k_is_active :: bool
  k_results_per_run :: int

record Video =
  v_id :: nat
  v_user_id :: nat
  v_keyword_id :: nat
  v_platform :: PlatformEnum
  v_video_url :: "string option"
  v_video_id :: "string option"
  v_author_username :: "string option"
  v_author_name :: "string option"
  v_description :: "string option"
  v_likes :: int
  v_comments :: int
  v_shares :: int
  v_views :: int
  v_transcription :: "string option"
  v_transcription_status :: string
  v_posted_at :: "datetime option"

record ScrapeJob =
  j_id :: nat
  j_user_id :: nat
  j_status :: JobStatusEnum
  j_platform :: "PlatformEnum option"
  j_keywords_processed :: int
  j_videos_found :: int
  j_videos_transcribed :: int
  j_error_message :: "string option"
  j_started_at :: "datetime option"
  j_completed_at :: "datetime option"

section \<open>Search provider wrappers (app/services/apify.py)\<close>

text \<open>
  A provider item is a JSON object; the model keeps the keys the wrappers read. A key
  that is absent is \<open>None\<close>; a key that is present holds a value of the type the
  wrapper expects.
\<close>

record AuthorMeta =
  am_name :: "string option"
  am_nickName :: "string option"

record TikTokItem =
  tt_diggCount :: "int option"
  tt_webVideoUrl :: "string option"
  tt_authorMeta :: "AuthorMeta option"
  tt_id :: "string option"
  tt_text :: "string option"
  tt_commentCount :: "int option"
  tt_shareCount :: "int option"
  tt_playCount :: "int option"
  tt_createTime :: "int option"

record InstagramItem =
  ig_type :: "string option"
  ig_videoUrl :: "string option"
  ig_url :: "string option"
  ig_id :: "string option"
  ig_ownerUsername :: "string option"
  ig_ownerFullName :: "string option"
  ig_caption :: "string option"
  ig_likesCount :: "int option"
  ig_commentsCount :: "int option"
  ig_videoViewCount :: "int option"
  ig_timestamp :: "string option"

text \<open>The \<open>run_input\<close> dictionaries handed to the two actors.\<close>

record TikTokInput =
  ti_searchQueries :: "string list"
  ti_resultsPerPage :: int
  ti_searchSection :: string
  ti_maxProfilesPerQuery :: int
  ti_shouldDownloadVideos :: bool
  ti_shouldDownloadCovers :: bool

record InstagramInput =
  ii_hashtags :: "string list"
  ii_resultsLimit :: int
  ii_resultsType :: string
  ii_searchType :: string

text \<open>The \<open>video_data\<close> dictionary built for every accepted item.\<close>

record VideoData =
  vd_platform :: PlatformEnum
  vd_video_url :: "string option"
  vd_video_id :: "string option"
  vd_author_username :: "string option"
  vd_author_name :: "string option"
  vd_description :: "string option"
  vd_likes :: int
  vd_comments :: int
  vd_shares :: int
  vd_views :: int
  vd_posted_at :: "datetime option"

text \<open>
  The external collaborators are parameters. \<open>tiktok_actor\<close> and
  \<open>instagram_actor\<close> stand for \<open>client.actor(id).call(run_input)\<close> followed by the
  iteration over the run's dataset: they get the actor id and the request and return
  the items or raise. \<open>fromtimestamp\<close> and \<open>fromisoformat\<close> are the two
  \<open>datetime\<close> constructors, which raise on values they cannot represent or parse.
  \<open>keywords_query_fault\<close> lets the store raise when the job selects its keywords: it
  is the error of the control logic around the per-keyword loop. Every other store call
  is taken to succeed. The last three fields are the collaborators of the transcription
  service: \<open>mkdtemp\<close> gives the fresh temporary directory, \<open>ydl_download url outtmpl\<close>
  gives the exception the download raises, if any, and the files present in that
  directory afterwards, \<open>whisper_transcribe\<close> gives the texts of the recognised
  segments.
\<close>

record env =
  tiktok_actor :: "string \<Rightarrow> TikTokInput \<Rightarrow> exn + TikTokItem list"
  instagram_actor :: "string \<Rightarrow> InstagramInput \<Rightarrow> exn + InstagramItem list"
  fromtimestamp :: "int \<Rightarrow> exn + datetime"
  fromisoformat :: "string \<Rightarrow> exn + datetime"
  utcnow :: datetime
  keywords_query_fault :: "exn option"
  mkdtemp :: string
  ydl_download :: "string option \<Rightarrow> string \<Rightarrow> exn option \<times> string list"
  whisper_transcribe :: "string \<Rightarrow> exn + string list"

text \<open>\<open>self.actors\<close>: a dictionary with no entry for YouTube.\<close>

fun actors :: "PlatformEnum \<Rightarrow> string option" where
  "actors TIKTOK = Some ''clockworks/free-tiktok-scraper''"
| "actors INSTAGRAM = Some ''apify/instagram-scraper''"
| "actors YOUTUBE = None"

text \<open>Python idioms used by the wrappers.\<close>

definition py_or :: "string option \<Rightarrow> string option \<Rightarrow> string option" where
  \<comment> \<open>\<open>a or b\<close>: \<open>None\<close> and the empty string are falsy.\<close>
  "py_or a b = (case a of None \<Rightarrow> b | Some s \<Rightarrow> if s = [] then b else Some s)"

definition py_format :: "string option \<Rightarrow> string" where
  \<comment> \<open>A value inside an f-string: \<open>None\<close> prints as the word None.\<close>
  "py_format x = (case x of None \<Rightarrow> ''None'' | Some s \<Rightarrow> s)"

definition get_int :: "int option \<Rightarrow> int" where
  \<comment> \<open>\<open>item.get(key, 0)\<close>\<close>
  "get_int x = (case x of None \<Rightarrow> 0 | Some n \<Rightarrow> n)"

definition py_slice_to :: "'a list \<Rightarrow> int \<Rightarrow> 'a list" where
  \<comment> \<open>\<open>xs[:n]\<close>: a negative \<open>n\<close> counts from the end.\<close>
  "py_slice_to xs n =
     (if 0 \<le> n then take (nat n) xs else take (nat (int (length xs) + n)) xs)"

definition sort_by_likes :: "VideoData list \<Rightarrow> VideoData list" where
  \<comment> \<open>\<open>videos.sort(key=lambda x: x["likes"], reverse=True)\<close>: stable, descending.\<close>
  "sort_by_likes videos = sort_key (\<lambda>x. - vd_likes x) videos"

definition py_replace_char :: "char \<Rightarrow> string \<Rightarrow> string \<Rightarrow> string" where
  \<comment> \<open>\<open>s.replace(c, r)\<close> for a one-character pattern.\<close>
  "py_replace_char c r s = concat (map (\<lambda>x. if x = c then r else [x]) s)"

definition py_lower_char :: "char \<Rightarrow> char" where
  \<comment> \<open>\<open>lower()\<close> on the ASCII letters; other characters are left as they are.\<close>
  "py_lower_char c =
     (let n = of_char c :: nat in if 65 \<le> n \<and> n \<le> 90 then char_of (n + 32) else c)"

definition py_lower :: "string \<Rightarrow> string" where
  "py_lower s = map py_lower_char s"

text \<open>\<open>scrape_tiktok\<close>: the request, the loop over the items, the whole wrapper.\<close>

definition tiktok_run_input :: "string \<Rightarrow> int \<Rightarrow> int \<Rightarrow> string \<Rightarrow> TikTokInput" where
  "tiktok_run_input keyword max_results min_likes date_filter =
     \<lparr> ti_searchQueries = [keyword],
       ti_resultsPerPage = max_results * 2,
       ti_searchSection = ''video'',
       ti_maxProfilesPerQuery = 0,
       ti_shouldDownloadVideos = False,
       ti_shouldDownloadCovers = False \<rparr>"

definition tiktok_author :: "TikTokItem \<Rightarrow> AuthorMeta" where
  \<comment> \<open>\<open>item.get("authorMeta", {})\<close>\<close>
  "tiktok_author item =
     (case tt_authorMeta item of
        None \<Rightarrow> \<lparr> am_name = None, am_nickName = None \<rparr>
      | Some a \<Rightarrow> a)"

definition tiktok_video_data :: "TikTokItem \<Rightarrow> datetime option \<Rightarrow> VideoData" where
  "tiktok_video_data item posted =
     \<lparr> vd_platform = TIKTOK,
       vd_video_url =
         py_or (tt_webVideoUrl item)
           (Some (''https://www.tiktok.com/@'' @ py_format (am_name (tiktok_author item))
                  @ ''/video/'' @ py_format (tt_id item))),
       vd_video_id = tt_id item,
       vd_author_username = am_name (tiktok_author item),
       vd_author_name = am_nickName (tiktok_author item),
       vd_description = tt_text item,
       vd_likes = get_int (tt_diggCount item),
       vd_comments = get_int (tt_commentCount item),
       vd_shares = get_int (tt_shareCount item),
       vd_views = get_int (tt_playCount item),
       vd_posted_at = posted \<rparr>"

fun tiktok_collect :: "env \<Rightarrow> int \<Rightarrow> TikTokItem list \<Rightarrow> VideoData list \<Rightarrow> exn + VideoData list" where
  "tiktok_collect env min_likes [] videos = Inr videos"
| "tiktok_collect env min_likes (item # items) videos =
     (if get_int (tt_diggCount item) \<ge> min_likes then
        (if get_int (tt_createTime item) \<noteq> 0 then
           (case fromtimestamp env (get_int (tt_createTime item)) of
              Inl e \<Rightarrow> Inl e
            | Inr t \<Rightarrow>
                tiktok_collect env min_likes items (videos @ [tiktok_video_data item (Some t)]))
         else tiktok_collect env min_likes items (videos @ [tiktok_video_data item None]))
      else tiktok_collect env min_likes items videos)"

definition scrape_tiktok :: "env \<Rightarrow> string \<Rightarrow> int \<Rightarrow> int \<Rightarrow> string \<Rightarrow> exn + VideoData list" where
  "scrape_tiktok env keyword max_results min_likes date_filter =
     (case tiktok_actor env (the (actors TIKTOK))
             (tiktok_run_input keyword max_results min_likes date_filter) of
        Inl e \<Rightarrow> Inl e
      | Inr items \<Rightarrow>
          (case tiktok_collect env min_likes items [] of
             Inl e \<Rightarrow> Inl e
           | Inr videos \<Rightarrow> Inr (py_slice_to (sort_by_likes videos) max_results)))"

text \<open>\<open>scrape_instagram\<close>, in the same three parts.\<close>

definition instagram_hashtag :: "string \<Rightarrow> string" where
  \<comment> \<open>\<open>keyword.replace(" ", "").lower()\<close>\<close>
  "instagram_hashtag keyword = py_lower (py_replace_char (CHR '' '') [] keyword)"

definition instagram_run_input :: "string \<Rightarrow> int \<Rightarrow> int \<Rightarrow> string \<Rightarrow> InstagramInput" where
  "instagram_run_input keyword max_results min_likes date_filter =
     \<lparr> ii_hashtags = [instagram_hashtag keyword],
       ii_resultsLimit = max_results * 2,
       ii_resultsType = ''posts'',
       ii_searchType = ''hashtag'' \<rparr>"

definition instagram_video_data :: "InstagramItem \<Rightarrow> datetime option \<Rightarrow> VideoData" where
  "instagram_video_data item posted =
     \<lparr> vd_platform = INSTAGRAM,
       vd_video_url = py_or (ig_url item) (ig_videoUrl item),
       vd_video_id = ig_id item,
       vd_author_username = ig_ownerUsername item,
       vd_author_name = ig_ownerFullName item,
       vd_description = ig_caption item,
       vd_likes = get_int (ig_likesCount item),
       vd_comments = get_int (ig_commentsCount item),
       vd_shares = 0,
       vd_views = get_int (ig_videoViewCount item),
       vd_posted_at = posted \<rparr>"

fun instagram_collect :: "env \<Rightarrow> int \<Rightarrow> InstagramItem list \<Rightarrow> VideoData list \<Rightarrow> exn + VideoData list" where
  "instagram_collect env min_likes [] videos = Inr videos"
| "instagram_collect env min_likes (item # items) videos =
     (if ig_type item \<noteq> Some ''Video'' \<and> ig_videoUrl item = None then
        instagram_collect env min_likes items videos
      else if get_int (ig_likesCount item) \<ge> min_likes then
        (case py_or (ig_timestamp item) None of
           Some ts \<Rightarrow>
             (case fromisoformat env (py_replace_char (CHR ''Z'') ''+00:00'' ts) of
                Inl e \<Rightarrow> Inl e
              | Inr t \<Rightarrow>
                  instagram_collect env min_likes items
                    (videos @ [instagram_video_data item (Some t)]))
         | None \<Rightarrow>
             instagram_collect env min_likes items (videos @ [instagram_video_data item None]))
      else instagram_collect env min_likes items videos)"

definition scrape_instagram :: "env \<Rightarrow> string \<Rightarrow> int \<Rightarrow> int \<Rightarrow> string \<Rightarrow> exn + VideoData list" where
  "scrape_instagram env keyword max_results min_likes date_filter =
     (case instagram_actor env (the (actors INSTAGRAM))
             (instagram_run_input keyword max_results min_likes date_filter) of
        Inl e \<Rightarrow> Inl e
      | Inr items \<Rightarrow>
          (case instagram_collect env min_likes items [] of
             Inl e \<Rightarrow> Inl e
           | Inr videos \<Rightarrow> Inr (py_slice_to (sort_by_likes videos) max_results)))"

text \<open>
  \<open>scrape_by_platform\<close>: the dispatch. The message of the \<open>ValueError\<close> is the
  f-string of the source with the platform printed by its value.
\<close>

definition scrape_by_platform ::
  "env \<Rightarrow> PlatformEnum \<Rightarrow> string \<Rightarrow> int \<Rightarrow> int \<Rightarrow> string \<Rightarrow> exn + VideoData list" where
  "scrape_by_platform env platform keyword max_results min_likes date_filter =
     (if platform = TIKTOK then scrape_tiktok env keyword max_results min_likes date_filter
      else if platform = INSTAGRAM then
        scrape_instagram env keyword max_results min_likes date_filter
      else Inl (ValueError (''Unsupported platform: '' @ platform_value platform)))"

section \<open>Transcription service (app/services/transcription.py)\<close>

definition py_isspace :: "char \<Rightarrow> bool" where
  \<comment> \<open>The characters below 256 that \<open>str.strip()\<close> removes.\<close>
  "py_isspace c =
     (let n = of_char c :: nat
      in (9 \<le> n \<and> n \<le> 13) \<or> (28 \<le> n \<and> n \<le> 32) \<or> n = 133 \<or> n = 160)"

definition py_strip :: "string \<Rightarrow> string" where
  "py_strip s = rev (dropWhile py_isspace (rev (dropWhile py_isspace s)))"

fun py_join :: "string \<Rightarrow> string list \<Rightarrow> string" where
  "py_join sep [] = []"
| "py_join sep [x] = x"
| "py_join sep (x # y # ys) = x @ sep @ py_join sep (y # ys)"

text \<open>
  \<open>download_audio\<close>: \<open>ydl_download\<close> gives the exception of the download, if any,
  and the files that are in the temporary directory afterwards;
  \<open>os.path.exists\<close> is membership in that list.
\<close>

definition download_audio ::
  "(exn option \<times> string list) \<Rightarrow> string \<Rightarrow> exn + string" where
  "download_audio downloaded output_path =
     (case fst downloaded of
        Some e \<Rightarrow> Inl e
      | None \<Rightarrow>
          if output_path @ ''.mp3'' \<in> set (snd downloaded) then Inr (output_path @ ''.mp3'')
          else
            (case filter (\<lambda>ext. output_path @ ext \<in> set (snd downloaded))
                    [''.mp3'', ''.m4a'', ''.webm'', ''.mp4''] of
               ext # _ \<Rightarrow> Inr (output_path @ ext)
             | [] \<Rightarrow>
                 Inl (FileNotFoundError
                        (''Downloaded audio file not found at '' @ output_path))))"

definition transcribe_audio :: "(string \<Rightarrow> exn + string list) \<Rightarrow> string \<Rightarrow> exn + string" where
  "transcribe_audio model audio_path =
     (case model audio_path of
        Inl e \<Rightarrow> Inl e
      | Inr segments \<Rightarrow> Inr (py_strip (py_join '' '' (map py_strip segments))))"

text \<open>
  \<open>transcribe_video\<close>: the \<open>finally\<close> block removes the audio file when there is one
  and then the directory; \<open>os.rmdir\<close> raises on a directory that is not empty, and an
  exception of the \<open>finally\<close> block replaces the result of the \<open>try\<close> block.
\<close>

definition transcribe_video ::
  "string \<Rightarrow> (string option \<Rightarrow> string \<Rightarrow> exn option \<times> string list) \<Rightarrow>
   (string \<Rightarrow> exn + string list) \<Rightarrow> string option \<Rightarrow> exn + string" where
  "transcribe_video temp_dir ydl model video_url =
     (let output_path = temp_dir @ ''/audio'';
          downloaded = ydl video_url output_path;
          audio = download_audio downloaded output_path;
          result = (case audio of Inl e \<Rightarrow> Inl e | Inr audio_path \<Rightarrow> transcribe_audio model audio_path);
          remaining = (case audio of Inl e \<Rightarrow> snd downloaded
                       | Inr audio_path \<Rightarrow> removeAll audio_path (snd downloaded))
      in if remaining \<noteq> [] then Inl (OSError ''Directory not empty'') else result)"

section \<open>Spreadsheet mirror (app/services/sheets.py)\<close>

text \<open>
  A worksheet is its list of rows, a spreadsheet maps worksheet titles to worksheets,
  the mirror maps sheet ids to spreadsheets. \<open>m_client\<close> says whether the client was
  initialised (\<open>self.client\<close> is not \<open>None\<close>); \<open>m_api_fault\<close> names the API calls
  that raise, and with what.
\<close>

datatype cell = CStr string | CInt int | CTime datetime | CNone

type_synonym row = "cell list"

record mirror =
  m_client :: bool
  m_api_fault :: "string \<Rightarrow> exn option"
  m_spreadsheets :: "string \<Rightarrow> (string \<Rightarrow> row list option) option"

definition py_upper_char :: "char \<Rightarrow> char" where
  "py_upper_char c =
     (let n = of_char c :: nat in if 97 \<le> n \<and> n \<le> 122 then char_of (n - 32) else c)"

definition py_capitalize :: "string \<Rightarrow> string" where
  "py_capitalize s = (case s of [] \<Rightarrow> [] | c # cs \<Rightarrow> py_upper_char c # py_lower cs)"

definition open_worksheet :: "mirror \<Rightarrow> string \<Rightarrow> string \<Rightarrow> exn + row list" where
  \<comment> \<open>\<open>self.client.open_by_key(sheet_id).worksheet(worksheet_name)\<close>\<close>
  "open_worksheet m sheet_id worksheet_name =
     (if \<not> m_client m then
        Inl (AttributeError ''NoneType object has no attribute open_by_key'')
      else case m_api_fault m ''open_by_key'' of
        Some e \<Rightarrow> Inl e
      | None \<Rightarrow>
          (case m_spreadsheets m sheet_id of
             None \<Rightarrow> Inl (ExternalError ''SpreadsheetNotFound'')
           | Some spreadsheet \<Rightarrow>
               (case m_api_fault m ''worksheet'' of
                  Some e \<Rightarrow> Inl e
                | None \<Rightarrow>
                    (case spreadsheet worksheet_name of
                       None \<Rightarrow> Inl (WorksheetNotFound worksheet_name)
                     | Some rows \<Rightarrow> Inr rows))))"

definition put_worksheet :: "mirror \<Rightarrow> string \<Rightarrow> string \<Rightarrow> row list \<Rightarrow> mirror" where
  "put_worksheet m sheet_id worksheet_name rows =
     m\<lparr>m_spreadsheets := (m_spreadsheets m)
          (sheet_id := Some ((case m_spreadsheets m sheet_id of
                                None \<Rightarrow> (\<lambda>_. None) | Some sp \<Rightarrow> sp)
                             (worksheet_name := Some rows)))\<rparr>"

definition opt_cell :: "string option \<Rightarrow> cell" where
  "opt_cell x = (case x of None \<Rightarrow> CNone | Some s \<Rightarrow> CStr s)"

definition batch_row :: "datetime \<Rightarrow> string \<Rightarrow> VideoData \<Rightarrow> row" where
  "batch_row now keyword video =
     (let d0 = (case py_or (vd_description video) (Some []) of None \<Rightarrow> [] | Some s \<Rightarrow> s);
          description = (if length d0 > 200 then take 200 d0 @ ''...'' else d0)
      in [CTime now, CStr keyword, opt_cell (vd_video_url video),
          opt_cell (vd_author_username video), CStr description,
          CInt (vd_likes video), CInt (vd_comments video), CInt (vd_shares video),
          CInt (vd_views video), CStr [], CStr ''pending''])"

text \<open>
  \<open>add_videos_batch\<close>: \<open>add_videos_batch_body\<close> is the \<open>try\<close> block, the function
  itself adds the \<open>except Exception: return 0\<close>. The result is the returned count and
  the mirror afterwards.
\<close>

definition add_videos_batch_body ::
  "datetime \<Rightarrow> mirror \<Rightarrow> string \<Rightarrow> VideoData list \<Rightarrow> PlatformEnum \<Rightarrow> string \<Rightarrow>
   exn + (int \<times> mirror)" where
  "add_videos_batch_body now m sheet_id videos platform keyword =
     (let worksheet_name = py_capitalize (platform_value platform)
      in case open_worksheet m sheet_id worksheet_name of
           Inl e \<Rightarrow> Inl e
         | Inr worksheet \<Rightarrow>
             (let rows = map (batch_row now keyword) videos
              in if rows \<noteq> [] then
                   (case m_api_fault m ''append_rows'' of
                      Some e \<Rightarrow> Inl e
                    | None \<Rightarrow>
                        Inr (int (length rows),
                             put_worksheet m sheet_id worksheet_name (worksheet @ rows)))
                 else Inr (int (length rows), m)))"

definition add_videos_batch ::
  "datetime \<Rightarrow> mirror \<Rightarrow> string \<Rightarrow> VideoData list \<Rightarrow> PlatformEnum \<Rightarrow> string \<Rightarrow>
   exn + (int \<times> mirror)" where
  "add_videos_batch now m sheet_id videos platform keyword =
     (case add_videos_batch_body now m sheet_id videos platform keyword of
        Inl e \<Rightarrow> Inr (0, m)
      | Inr r \<Rightarrow> Inr r)"

text \<open>
  \<open>update_transcription_in_sheet\<close>: \<open>worksheet.find\<close> gives the first row that holds
  the URL in one of its cells; the two updates write columns J and K of that row.
\<close>

definition set_column :: "nat \<Rightarrow> cell \<Rightarrow> row \<Rightarrow> row" where
  \<comment> \<open>Writing a cell beyond the end of a row fills the gap with empty cells.\<close>
  "set_column i c r = (r @ replicate (Suc i - length r) (CStr [])) [i := c]"

fun find_row :: "string \<Rightarrow> row list \<Rightarrow> nat option" where
  "find_row url [] = None"
| "find_row url (r # rs) =
     (if CStr url \<in> set r then Some 0
      else (case find_row url rs of None \<Rightarrow> None | Some i \<Rightarrow> Some (Suc i)))"

definition update_transcription_in_sheet_body ::
  "mirror \<Rightarrow> string \<Rightarrow> string option \<Rightarrow> PlatformEnum \<Rightarrow> string \<Rightarrow> string \<Rightarrow>
   exn + (bool \<times> mirror)" where
  "update_transcription_in_sheet_body m sheet_id video_url platform transcription status =
     (let worksheet_name = py_capitalize (platform_value platform)
      in case open_worksheet m sheet_id worksheet_name of
           Inl e \<Rightarrow> Inl e
         | Inr worksheet \<Rightarrow>
             (case video_url of
                None \<Rightarrow> Inl (AttributeError ''NoneType object has no attribute search'')
              | Some url \<Rightarrow>
                  (case m_api_fault m ''find'' of
                     Some e \<Rightarrow> Inl e
                   | None \<Rightarrow>
                       (case find_row url worksheet of
                          None \<Rightarrow> Inr (False, m)
                        | Some i \<Rightarrow>
                            (case m_api_fault m ''update'' of
                               Some e \<Rightarrow> Inl e
                             | None \<Rightarrow>
                                 Inr (True,
                                      put_worksheet m sheet_id worksheet_name
                                        (worksheet
                                           [i := set_column 10 (CStr status)
                                                   (set_column 9 (CStr transcription)
                                                      (worksheet ! i))])))))))"

definition update_transcription_in_sheet ::
  "mirror \<Rightarrow> string \<Rightarrow> string option \<Rightarrow> PlatformEnum \<Rightarrow> string \<Rightarrow> string \<Rightarrow>
   exn + (bool \<times> mirror)" where
  "update_transcription_in_sheet m sheet_id video_url platform transcription status =
     (case update_transcription_in_sheet_body m sheet_id video_url platform transcription
             status of
        Inl e \<Rightarrow> Inr (False, m)
      | Inr r \<Rightarrow> Inr r)"

section \<open>Store and background tasks\<close>

text \<open>
  Modelled from the spec: the session factory \<open>app.database.SessionLocal\<close> and the
  store behind it are not among the sources. The spec asks for a store with a
  transactional check-then-insert on a unique key, used by one caller at a time. So a
  table is the list of its rows in insertion order, a query sees every row added
  before it (also one added earlier in the same session), \<open>first()\<close> is the head of
  the filtered list, an insert takes its primary key from a sequence, and every call
  succeeds. \<open>w_log\<close> records the snapshot of the store at every \<open>db.commit()\<close>: these
  are the states another reader can observe.
\<close>

record db =
  users :: "User list"
  user_settings :: "UserSettings list"
  keyword_rows :: "Keyword list"
  videos :: "Video list"
  jobs :: "ScrapeJob list"
  video_seq :: nat
  job_seq :: nat

text \<open>
  A scheduled background task (\<open>background_tasks.add_task\<close>) with its arguments:
  \<open>run_scrape_job(job_id, user_id, platform)\<close> or \<open>run_transcription_job(video_id)\<close>.
\<close>

datatype task = ScrapeTask nat nat "PlatformEnum option" | TranscriptionTask nat

record world =
  w_db :: db
  w_log :: "db list"
  w_sheets :: mirror
  w_tasks :: "task list"

definition first :: "'a list \<Rightarrow> 'a option" where
  "first xs = (case xs of [] \<Rightarrow> None | x # _ \<Rightarrow> Some x)"

definition commit :: "world \<Rightarrow> world" where
  "commit w = w\<lparr>w_log := w_log w @ [w_db w]\<rparr>"

definition update_job :: "nat \<Rightarrow> (ScrapeJob \<Rightarrow> ScrapeJob) \<Rightarrow> world \<Rightarrow> world" where
  \<comment> \<open>An attribute assignment on the loaded job: an update of the row with its key.\<close>
  "update_job job_id f w =
     w\<lparr>w_db := (w_db w)\<lparr>jobs := map (\<lambda>j. if j_id j = job_id then f j else j) (jobs (w_db w))\<rparr>\<rparr>"

definition update_video :: "nat \<Rightarrow> (Video \<Rightarrow> Video) \<Rightarrow> world \<Rightarrow> world" where
  "update_video video_id f w =
     w\<lparr>w_db := (w_db w)\<lparr>videos := map (\<lambda>v. if v_id v = video_id then f v else v) (videos (w_db w))\<rparr>\<rparr>"

definition truthy :: "string option \<Rightarrow> bool" where
  \<comment> \<open>\<open>if user.google_sheet_id:\<close>\<close>
  "truthy x = (case x of None \<Rightarrow> False | Some s \<Rightarrow> s \<noteq> [])"

section \<open>Scrape job (app/routers/jobs.py, run_scrape_job)\<close>

text \<open>
  \<open>save_video\<close> is the body of the loop over \<open>videos_data\<close>: the lookup by URL over
  all stored videos, \<open>continue\<close> when one exists, otherwise the insert and the
  increment of \<open>total_videos\<close>.
\<close>

definition new_video :: "nat \<Rightarrow> nat \<Rightarrow> Keyword \<Rightarrow> VideoData \<Rightarrow> Video" where
  "new_video vid user_id keyword video_data =
     \<lparr> v_id = vid,
       v_user_id = user_id,
       v_keyword_id = k_id keyword,
       v_platform = vd_platform video_data,
       v_video_url = vd_video_url video_data,
       v_video_id = vd_video_id video_data,
       v_author_username = vd_author_username video_data,
       v_author_name = vd_author_name video_data,
       v_description = vd_description video_data,
       v_likes = vd_likes video_data,
       v_comments = vd_comments video_data,
       v_shares = vd_shares video_data,
       v_views = vd_views video_data,
       v_transcription = None,
       v_transcription_status = ''pending'',
       v_posted_at = vd_posted_at video_data \<rparr>"

definition save_video :: "nat \<Rightarrow> Keyword \<Rightarrow> VideoData \<Rightarrow> db \<times> int \<Rightarrow> db \<times> int" where
  "save_video user_id keyword video_data st =
     (case first (filter (\<lambda>v. v_video_url v = vd_video_url video_data) (videos (fst st))) of
        Some existing \<Rightarrow> st
      | None \<Rightarrow>
          ((fst st)\<lparr>videos := videos (fst st)
                       @ [new_video (Suc (video_seq (fst st))) user_id keyword video_data],
                    video_seq := Suc (video_seq (fst st))\<rparr>,
           snd st + 1))"

text \<open>
  \<open>process_keyword\<close> is the body of the loop over the keywords with its
  \<open>try\<close>/\<open>except\<close>: the search is the only statement of the block that can raise
  here, so the handler finds the state as it was before the keyword.
\<close>

definition search_keyword :: "env \<Rightarrow> UserSettings option \<Rightarrow> Keyword \<Rightarrow> exn + VideoData list" where
  \<comment> \<open>The call of \<open>apify_service.scrape_by_platform\<close> with its five arguments.\<close>
  "search_keyword env settings keyword =
     scrape_by_platform env (k_platform keyword) (k_keyword keyword)
       (k_results_per_run keyword)
       (case settings of Some s \<Rightarrow> s_min_likes s | None \<Rightarrow> 1000)
       (case settings of Some s \<Rightarrow> s_date_filter s | None \<Rightarrow> ''this_week'')"

definition process_keyword ::
  "env \<Rightarrow> nat \<Rightarrow> nat \<Rightarrow> User \<Rightarrow> UserSettings option \<Rightarrow> Keyword \<Rightarrow> world \<times> int \<Rightarrow> world \<times> int" where
  "process_keyword env job_id user_id user settings keyword st =
     (case search_keyword env settings keyword of
        Inl e \<Rightarrow> st
      | Inr videos_data \<Rightarrow>
          (let w = fst st;
               saved = fold (save_video user_id keyword) videos_data (w_db w, snd st);
               sheets =
                 (if truthy (u_google_sheet_id user) then
                    (case add_videos_batch (utcnow env) (w_sheets w)
                            (the (u_google_sheet_id user)) videos_data (k_platform keyword)
                            (k_keyword keyword) of
                       Inl e \<Rightarrow> w_sheets w
                     | Inr r \<Rightarrow> snd r)
                  else w_sheets w);
               w1 = w\<lparr>w_db := fst saved, w_sheets := sheets\<rparr>;
               w2 = update_job job_id
                      (\<lambda>j. j\<lparr>j_keywords_processed := j_keywords_processed j + 1\<rparr>) w1
           in (commit w2, snd saved)))"

definition select_keywords :: "env \<Rightarrow> nat \<Rightarrow> PlatformEnum option \<Rightarrow> db \<Rightarrow> exn + Keyword list" where
  "select_keywords env user_id platform d =
     (case keywords_query_fault env of
        Some e \<Rightarrow> Inl e
      | None \<Rightarrow>
          Inr (filter (\<lambda>k. k_user_id k = user_id \<and> k_is_active k
                           \<and> (case platform of None \<Rightarrow> True | Some p \<Rightarrow> k_platform k = p))
                 (keyword_rows d)))"

definition run_scrape_job :: "env \<Rightarrow> nat \<Rightarrow> nat \<Rightarrow> PlatformEnum option \<Rightarrow> world \<Rightarrow> world" where
  "run_scrape_job env job_id user_id platform w =
     (let job = first (filter (\<lambda>j. j_id j = job_id) (jobs (w_db w)));
          user = first (filter (\<lambda>u. u_id u = user_id) (users (w_db w)));
          settings = first (filter (\<lambda>s. s_user_id s = user_id) (user_settings (w_db w)))
      in if job = None \<or> user = None then w
         else
           (let w1 = commit (update_job job_id
                               (\<lambda>j. j\<lparr>j_status := RUNNING, j_started_at := Some (utcnow env)\<rparr>) w)
            in case select_keywords env user_id platform (w_db w1) of
                 Inl e \<Rightarrow>
                   commit (update_job job_id
                             (\<lambda>j. j\<lparr>j_status := FAILED,
                                    j_error_message := Some (str_exn e),
                                    j_completed_at := Some (utcnow env)\<rparr>) w1)
               | Inr kws \<Rightarrow>
                   (let done = fold (process_keyword env job_id user_id (the user) settings)
                                 kws (w1, 0)
                    in commit (update_job job_id
                                 (\<lambda>j. j\<lparr>j_status := COMPLETED,
                                        j_videos_found := snd done,
                                        j_completed_at := Some (utcnow env)\<rparr>) (fst done)))))"

section \<open>Transcription job (app/routers/jobs.py, run_transcription_job)\<close>

definition run_transcription_job :: "env \<Rightarrow> nat \<Rightarrow> world \<Rightarrow> world" where
  "run_transcription_job env video_id w =
     (case first (filter (\<lambda>v. v_id v = video_id) (videos (w_db w))) of
        None \<Rightarrow> w
      | Some video \<Rightarrow>
          (let w1 = commit (update_video video_id
                              (\<lambda>v. v\<lparr>v_transcription_status := ''processing''\<rparr>) w)
           in case transcribe_video (mkdtemp env) (ydl_download env) (whisper_transcribe env)
                     (v_video_url video) of
                Inl e \<Rightarrow>
                  commit (update_video video_id
                            (\<lambda>v. v\<lparr>v_transcription_status := ''failed''\<rparr>) w1)
              | Inr transcription \<Rightarrow>
                  (let w2 = commit (update_video video_id
                                      (\<lambda>v. v\<lparr>v_transcription := Some transcription,
                                             v_transcription_status := ''completed''\<rparr>) w1)
                   in case first (filter (\<lambda>u. u_id u = v_user_id video) (users (w_db w2))) of
                        None \<Rightarrow> w2
                      | Some user \<Rightarrow>
                          if truthy (u_google_sheet_id user) then
                            (case update_transcription_in_sheet (w_sheets w2)
                                    (the (u_google_sheet_id user)) (v_video_url video)
                                    (v_platform video) transcription ''completed'' of
                               Inl e \<Rightarrow> w2
                             | Inr r \<Rightarrow> w2\<lparr>w_sheets := snd r\<rparr>)
                          else w2)))"

section \<open>Request handlers (app/routers/jobs.py)\<close>

datatype HTTPException = HTTPException nat string

definition new_job :: "nat \<Rightarrow> nat \<Rightarrow> PlatformEnum option \<Rightarrow> ScrapeJob" where
  \<comment> \<open>The row after \<open>db.refresh\<close>: the key and the column defaults are filled in.\<close>
  "new_job jid user_id platform =
     \<lparr> j_id = jid, j_user_id = user_id, j_status = PENDING, j_platform = platform,
       j_keywords_processed = 0, j_videos_found = 0, j_videos_transcribed = 0,
       j_error_message = None, j_started_at = None, j_completed_at = None \<rparr>"

definition start_scrape_job ::
  "User \<Rightarrow> PlatformEnum option \<Rightarrow> world \<Rightarrow> (HTTPException + ScrapeJob) \<times> world" where
  "start_scrape_job current_user platform w =
     (case first (filter (\<lambda>j. j_user_id j = u_id current_user \<and> j_status j = RUNNING)
                    (jobs (w_db w))) of
        Some running_job \<Rightarrow>
          (Inl (HTTPException 400
                  ''A job is already running. Please wait for it to complete.''), w)
      | None \<Rightarrow>
          (let job = new_job (Suc (job_seq (w_db w))) (u_id current_user) platform;
               w1 = commit (w\<lparr>w_db := (w_db w)\<lparr>jobs := jobs (w_db w) @ [job],
                                                job_seq := Suc (job_seq (w_db w))\<rparr>\<rparr>)
           in (Inr job,
               w1\<lparr>w_tasks := w_tasks w1
                             @ [ScrapeTask (j_id job) (u_id current_user) platform]\<rparr>)))"

definition start_transcription ::
  "User \<Rightarrow> nat \<Rightarrow> world \<Rightarrow> (HTTPException + nat) \<times> world" where
  "start_transcription current_user video_id w =
     (case first (filter (\<lambda>v. v_id v = video_id \<and> v_user_id v = u_id current_user)
                    (videos (w_db w))) of
        None \<Rightarrow> (Inl (HTTPException 404 ''Video not found''), w)
      | Some video \<Rightarrow>
          if v_transcription_status video = ''processing'' then
            (Inl (HTTPException 400 ''Transcription already in progress''), w)
          else
            (Inr (v_id video),
             w\<lparr>w_tasks := w_tasks w @ [TranscriptionTask (v_id video)]\<rparr>))"

definition transcribe_all_pending :: "User \<Rightarrow> world \<Rightarrow> nat \<times> world" where
  "transcribe_all_pending current_user w =
     (let pending_videos =
            filter (\<lambda>v. v_user_id v = u_id current_user
                        \<and> v_transcription_status v = ''pending'') (videos (w_db w))
      in (length pending_videos,
          w\<lparr>w_tasks := w_tasks w @ map (\<lambda>v. TranscriptionTask (v_id v)) pending_videos\<rparr>))"

section \<open>Serialized executions\<close>

text \<open>
  One operation at a time, each run to its end: a request of an authenticated user
  (the user row with the given key exists, otherwise the request does not reach the
  handler), or the run of one of the scheduled background tasks, which leaves the
  queue when it starts. Every event comes with the environment it meets.
\<close>

datatype event =
    StartScrapeJob nat "PlatformEnum option"
  | StartTranscription nat nat
  | TranscribeAllPending nat
  | RunTask nat

fun run_task :: "env \<Rightarrow> task \<Rightarrow> world \<Rightarrow> world" where
  "run_task env (ScrapeTask job_id user_id platform) w = run_scrape_job env job_id user_id platform w"
| "run_task env (TranscriptionTask video_id) w = run_transcription_job env video_id w"

text \<open>
  Modelled from the spec: \<open>app.auth.get_current_user\<close> is not among the sources. The
  identity store supplies the user of a request; here it is the stored user with the
  key the request carries.
\<close>

definition current_user :: "nat \<Rightarrow> world \<Rightarrow> User option" where
  "current_user uid w = first (filter (\<lambda>u. u_id u = uid) (users (w_db w)))"

fun step :: "env \<times> event \<Rightarrow> world \<Rightarrow> world" where
  "step (env, StartScrapeJob uid platform) w =
     (case current_user uid w of None \<Rightarrow> w | Some u \<Rightarrow> snd (start_scrape_job u platform w))"
| "step (env, StartTranscription uid video_id) w =
     (case current_user uid w of None \<Rightarrow> w | Some u \<Rightarrow> snd (start_transcription u video_id w))"
| "step (env, TranscribeAllPending uid) w =
     (case current_user uid w of None \<Rightarrow> w | Some u \<Rightarrow> snd (transcribe_all_pending u w))"
| "step (env, RunTask i) w =
     (if i < length (w_tasks w) then
        run_task env (w_tasks w ! i) (w\<lparr>w_tasks := take i (w_tasks w) @ drop (Suc i) (w_tasks w)\<rparr>)
      else w)"

definition exec :: "(env \<times> event) list \<Rightarrow> world \<Rightarrow> world" where
  "exec evs w = fold step evs w"

section \<open>Observations on the store\<close>

definition get_job :: "nat \<Rightarrow> db \<Rightarrow> ScrapeJob option" where
  "get_job job_id d = first (filter (\<lambda>j. j_id j = job_id) (jobs d))"

definition get_video :: "nat \<Rightarrow> db \<Rightarrow> Video option" where
  "get_video video_id d = first (filter (\<lambda>v. v_id v = video_id) (videos d))"

definition job_status :: "nat \<Rightarrow> db \<Rightarrow> JobStatusEnum option" where
  "job_status job_id d = map_option j_status (get_job job_id d)"



text \<open>What the lifecycle of the jobs shows of a snapshot: key, owner and status of every job.\<close>

definition job_view :: "db \<Rightarrow> (nat \<times> nat \<times> JobStatusEnum) list" where
  "job_view d = map (\<lambda>j. (j_id j, j_user_id j, j_status j)) (jobs d)"




definition set_status ::
  "nat \<Rightarrow> JobStatusEnum \<Rightarrow> (nat \<times> nat \<times> JobStatusEnum) list \<Rightarrow> (nat \<times> nat \<times> JobStatusEnum) list" where
  "set_status job_id s v = map (\<lambda>x. if fst x = job_id then (fst x, fst (snd x), s) else x) v"







text \<open>Two worlds that differ in the mirror at most.\<close>

definition same_store :: "world \<Rightarrow> world \<Rightarrow> bool" where
  "same_store w w' = (w_db w = w_db w' \<and> w_log w = w_log w' \<and> w_tasks w = w_tasks w')"

section \<open>Concrete inputs\<close>

text \<open>
  A user with two active TikTok keywords and one YouTube keyword. The provider returns
  three items for the first keyword, two of them above the likes floor, and raises for
  every other request.
\<close>

definition demo_item :: "string \<Rightarrow> int \<Rightarrow> TikTokItem" where
  "demo_item url n =
     \<lparr> tt_diggCount = Some n, tt_webVideoUrl = Some url, tt_authorMeta = None,
       tt_id = None, tt_text = None, tt_commentCount = None, tt_shareCount = None,
       tt_playCount = None, tt_createTime = None \<rparr>"

definition demo_env :: env where
  "demo_env =
     \<lparr> tiktok_actor =
         (\<lambda>actor request.
            if ti_searchQueries request = [''ai tools'']
            then Inr [demo_item ''a'' 5000, demo_item ''b'' 10, demo_item ''c'' 2000]
            else Inl (ExternalError ''search failed'')),
       instagram_actor = (\<lambda>actor request. Inr []),
       fromtimestamp = (\<lambda>t. Inr t),
       fromisoformat = (\<lambda>s. Inl (ValueError ''Invalid isoformat string'')),
       utcnow = 100,
       keywords_query_fault = None,
       mkdtemp = ''/tmp/t'',
       ydl_download = (\<lambda>url outtmpl. (None, [outtmpl @ ''.mp3''])),
       whisper_transcribe = (\<lambda>audio_path. Inr []) \<rparr>"

definition demo_keyword :: "nat \<Rightarrow> string \<Rightarrow> PlatformEnum \<Rightarrow> Keyword" where
  "demo_keyword i text platform =
     \<lparr> k_id = i, k_user_id = 1, k_keyword = text, k_platform = platform,
       k_is_active = True, k_results_per_run = 10 \<rparr>"

definition demo_user :: User where
  "demo_user = \<lparr> u_id = 1, u_google_sheet_id = None \<rparr>"

definition demo_db :: db where
  "demo_db =
     \<lparr> users = [demo_user],
       user_settings = [],
       keyword_rows = [demo_keyword 1 ''ai tools'' TIKTOK, demo_keyword 2 ''crypto'' TIKTOK,
                       demo_keyword 3 ''shorts'' YOUTUBE],
       videos = [],
       jobs = [],
       video_seq = 0,
       job_seq = 0 \<rparr>"

definition demo_mirror :: mirror where
  "demo_mirror = \<lparr> m_client = False, m_api_fault = (\<lambda>call. None), m_spreadsheets = (\<lambda>key. None) \<rparr>"

definition demo_world :: world where
  "demo_world = \<lparr> w_db = demo_db, w_log = [demo_db], w_sheets = demo_mirror, w_tasks = [] \<rparr>"

text \<open>The same world after the user has started a job for all platforms.\<close>

definition demo_started :: world where
  "demo_started = snd (start_scrape_job demo_user None demo_world)"

text \<open>
  The world after that job has run: two videos are stored, both \<open>pending\<close>. Then two
  more environments: one in which the download raises, one in which the speech model
  recognises two segments. In \<open>demo_env\<close> itself the speech model recognises nothing.
\<close>

definition demo_scraped :: world where
  "demo_scraped = exec [(demo_env, RunTask 0)] demo_started"

definition demo_env_offline :: env where
  "demo_env_offline =
     demo_env\<lparr>ydl_download := (\<lambda>url outtmpl. (Some (ExternalError ''download failed''), []))\<rparr>"

definition demo_env_speech :: env where
  "demo_env_speech = demo_env\<lparr>whisper_transcribe := (\<lambda>audio_path. Inr ['' hello'', ''world ''])\<rparr>"

definition demo_failed :: world where
  "demo_failed =
     exec [(demo_env_offline, StartTranscription 1 1), (demo_env_offline, RunTask 0)] demo_scraped"

text \<open>
  A mirror that works, with one spreadsheet and its TikTok worksheet (\<open>demo_mirror\<close> is
  the one whose client was never initialised), and the starting world with the user
  connected to that spreadsheet.
\<close>

definition demo_mirror_ok :: mirror where
  "demo_mirror_ok =
     \<lparr> m_client = True,
       m_api_fault = (\<lambda>call. None),
       m_spreadsheets =
         (\<lambda>key. if key = ''sheet''
                 then Some (\<lambda>title. if title = ''Tiktok'' then Some [[CStr ''Date Scraped'']] else None)
                 else None) \<rparr>"

definition demo_sheet_world :: "mirror \<Rightarrow> world" where
  "demo_sheet_world m =
     \<lparr> w_db = demo_db\<lparr>users := [demo_user\<lparr>u_google_sheet_id := Some ''sheet''\<rparr>]\<rparr>,
       w_log = [demo_db\<lparr>users := [demo_user\<lparr>u_google_sheet_id := Some ''sheet''\<rparr>]\<rparr>],
       w_sheets = m,
       w_tasks = [] \<rparr>"

definition demo_events :: "(env \<times> event) list" where
  "demo_events =
     [(demo_env, StartScrapeJob 1 None), (demo_env, RunTask 0),
      (demo_env, StartTranscription 1 1), (demo_env_speech, RunTask 0)]"


definition processing_started :: "nat \<Rightarrow> world \<Rightarrow> world" where
  \<comment> \<open>The first write of \<open>run_transcription_job\<close>.\<close>
  "processing_started vid w =
     commit (update_video vid (\<lambda>v. v\<lparr>v_transcription_status := ''processing''\<rparr>) w)"

subsection \<open>Abbreviations used in the proofs\<close>

text \<open>
  \<open>bump\<close> adds to the \<open>keywords_processed\<close> counter of the job with the given key;
  \<open>job_started\<close> is the first write of \<open>run_scrape_job\<close>: status \<open>RUNNING\<close>, start
  time, commit.
\<close>

definition bump :: "nat \<Rightarrow> int \<Rightarrow> ScrapeJob \<Rightarrow> ScrapeJob" where
  "bump jid n j = (if j_id j = jid then j\<lparr>j_keywords_processed := j_keywords_processed j + n\<rparr> else j)"

definition job_started :: "env \<Rightarrow> nat \<Rightarrow> world \<Rightarrow> world" where
  "job_started env jid w =
     commit (update_job jid (\<lambda>j. j\<lparr>j_status := RUNNING, j_started_at := Some (utcnow env)\<rparr>) w)"

section \<open>Properties\<close>

subsection \<open>Auxiliary facts\<close>

lemma first_filter_None: "first (filter P xs) = None \<longleftrightarrow> (\<forall>x\<in>set xs. \<not> P x)"
  by (induction xs) (auto simp: first_def)

lemma first_filter_Some: "first (filter P xs) = Some x \<Longrightarrow> x \<in> set xs \<and> P x"
  by (induction xs) (auto simp: first_def split: if_splits)

lemma first_filter_map:
  "(\<And>x. P (f x) = P x) \<Longrightarrow> first (filter P (map f xs)) = map_option f (first (filter P xs))"
  by (induction xs) (auto simp: first_def)

lemma save_video_frame:
  "users (fst (save_video u k c st)) = users (fst st)"
  "user_settings (fst (save_video u k c st)) = user_settings (fst st)"
  "keyword_rows (fst (save_video u k c st)) = keyword_rows (fst st)"
  "jobs (fst (save_video u k c st)) = jobs (fst st)"
  "job_seq (fst (save_video u k c st)) = job_seq (fst st)"
  by (simp_all add: save_video_def split: option.splits)

lemma fold_save_video_frame:
  "users (fst (fold (save_video u k) cs st)) = users (fst st)"
  "user_settings (fst (fold (save_video u k) cs st)) = user_settings (fst st)"
  "keyword_rows (fst (fold (save_video u k) cs st)) = keyword_rows (fst st)"
  "jobs (fst (fold (save_video u k) cs st)) = jobs (fst st)"
  "job_seq (fst (fold (save_video u k) cs st)) = job_seq (fst st)"
  by (induction cs arbitrary: st) (simp_all add: save_video_frame)

lemma save_video_existing:
  "vd_video_url c \<in> v_video_url ` set (videos (fst st)) \<Longrightarrow> save_video u k c st = st"
  by (cases "first (filter (\<lambda>v. v_video_url v = vd_video_url c) (videos (fst st)))")
     (auto simp: save_video_def first_filter_None)

lemma save_video_fresh:
  "vd_video_url c \<notin> v_video_url ` set (videos (fst st)) \<Longrightarrow>
   save_video u k c st =
     ((fst st)\<lparr>videos := videos (fst st) @ [new_video (Suc (video_seq (fst st))) u k c],
              video_seq := Suc (video_seq (fst st))\<rparr>, snd st + 1)"
proof -
  assume "vd_video_url c \<notin> v_video_url ` set (videos (fst st))"
  then have "first (filter (\<lambda>v. v_video_url v = vd_video_url c) (videos (fst st))) = None"
    unfolding first_filter_None by (metis imageI)
  then show ?thesis by (simp add: save_video_def)
qed

lemma new_video_url: "v_video_url (new_video i u k c) = vd_video_url c"
  by (simp add: new_video_def)

lemma save_video_grows:
  "\<exists>new. videos (fst (save_video u k c st)) = videos (fst st) @ new
     \<and> snd (save_video u k c st) = snd st + int (length new)
     \<and> v_video_url ` set new \<inter> v_video_url ` set (videos (fst st)) = {}
     \<and> distinct (map v_video_url new)
     \<and> vd_video_url c \<in> v_video_url ` set (videos (fst st) @ new)"
proof (cases "vd_video_url c \<in> v_video_url ` set (videos (fst st))")
  case True
  then show ?thesis by (intro exI[of _ "[]"]) (simp add: save_video_existing)
next
  case False
  then show ?thesis
    by (intro exI[of _ "[new_video (Suc (video_seq (fst st))) u k c]"])
       (simp add: save_video_fresh new_video_url)
qed

lemma fold_save_video_grows:
  "\<exists>new. videos (fst (fold (\<lambda>(u, k, c). save_video u k c) cs st)) = videos (fst st) @ new
     \<and> snd (fold (\<lambda>(u, k, c). save_video u k c) cs st) = snd st + int (length new)
     \<and> v_video_url ` set new \<inter> v_video_url ` set (videos (fst st)) = {}
     \<and> distinct (map v_video_url new)
     \<and> (\<forall>(u, k, c)\<in>set cs. vd_video_url c \<in> v_video_url ` set (videos (fst st) @ new))"
proof (induction cs arbitrary: st)
  case Nil
  then show ?case by simp
next
  case (Cons x cs)
  obtain u k c where x: "x = (u, k, c)" by (cases x) auto
  let ?st1 = "save_video u k c st"
  from save_video_grows[of u k c st] obtain n1 where
    n1: "videos (fst ?st1) = videos (fst st) @ n1" "snd ?st1 = snd st + int (length n1)"
        "v_video_url ` set n1 \<inter> v_video_url ` set (videos (fst st)) = {}"
        "distinct (map v_video_url n1)"
        "vd_video_url c \<in> v_video_url ` set (videos (fst st) @ n1)" by blast
  from Cons.IH[of ?st1] obtain n2 where
    n2: "videos (fst (fold (\<lambda>(u, k, c). save_video u k c) cs ?st1)) = videos (fst ?st1) @ n2"
        "snd (fold (\<lambda>(u, k, c). save_video u k c) cs ?st1) = snd ?st1 + int (length n2)"
        "v_video_url ` set n2 \<inter> v_video_url ` set (videos (fst ?st1)) = {}"
        "distinct (map v_video_url n2)"
        "\<forall>(u, k, c)\<in>set cs. vd_video_url c \<in> v_video_url ` set (videos (fst ?st1) @ n2)" by blast
  show ?case
    apply (rule exI[of _ "n1 @ n2"])
    using n1 n2 x by (auto simp: image_Un)
qed

lemma fold_save_video_one_keyword:
  "\<exists>new. videos (fst (fold (save_video u k) cs st)) = videos (fst st) @ new
     \<and> snd (fold (save_video u k) cs st) = snd st + int (length new)
     \<and> v_video_url ` set new \<inter> v_video_url ` set (videos (fst st)) = {}
     \<and> distinct (map v_video_url new)
     \<and> (\<forall>c\<in>set cs. vd_video_url c \<in> v_video_url ` set (videos (fst st) @ new))"
proof -
  have eq: "fold (save_video u k) cs st
              = fold (\<lambda>(u, k, c). save_video u k c) (map (\<lambda>c. (u, k, c)) cs) st"
    by (simp add: fold_map comp_def)
  show ?thesis
    using fold_save_video_grows[of "map (\<lambda>c. (u, k, c)) cs" st] unfolding eq by auto
qed

lemma job_view_update_same:
  "(\<And>j. j_id (f j) = j_id j \<and> j_user_id (f j) = j_user_id j \<and> j_status (f j) = j_status j) \<Longrightarrow>
   job_view (w_db (update_job jid f w)) = job_view (w_db w)"
  by (simp add: job_view_def update_job_def)

lemma job_view_update_status:
  "(\<And>j. j_id (f j) = j_id j \<and> j_user_id (f j) = j_user_id j \<and> j_status (f j) = s) \<Longrightarrow>
   job_view (w_db (update_job jid f w)) = set_status jid s (job_view (w_db w))"
  by (simp add: job_view_def update_job_def set_status_def)

lemma update_job_frame:
  "users (w_db (update_job jid f w)) = users (w_db w)"
  "user_settings (w_db (update_job jid f w)) = user_settings (w_db w)"
  "keyword_rows (w_db (update_job jid f w)) = keyword_rows (w_db w)"
  "videos (w_db (update_job jid f w)) = videos (w_db w)"
  "job_seq (w_db (update_job jid f w)) = job_seq (w_db w)"
  "w_log (update_job jid f w) = w_log w"
  "w_tasks (update_job jid f w) = w_tasks w"
  "w_sheets (update_job jid f w) = w_sheets w"
  by (simp_all add: update_job_def)

lemma commit_frame:
  "w_db (commit w) = w_db w"
  "w_log (commit w) = w_log w @ [w_db w]"
  "w_tasks (commit w) = w_tasks w"
  "w_sheets (commit w) = w_sheets w"
  by (simp_all add: commit_def)




lemma process_keyword_jobs:
  "jobs (w_db (fst (process_keyword env jid uid u settings k st)))
     = map (\<lambda>j. if j_id j = jid
                then j\<lparr>j_keywords_processed := j_keywords_processed j
                         + (if isl (search_keyword env settings k) then 0 else 1)\<rparr>
                else j) (jobs (w_db (fst st)))"
proof (cases "search_keyword env settings k")
  case (Inl e)
  have "map (\<lambda>j. if j_id j = jid then j\<lparr>j_keywords_processed := j_keywords_processed j + 0\<rparr> else j)
          (jobs (w_db (fst st))) = jobs (w_db (fst st))"
    by (induction "jobs (w_db (fst st))") (auto simp: map_idI)
  with Inl show ?thesis by (simp add: process_keyword_def)
next
  case (Inr vs)
  then show ?thesis
    by (simp add: process_keyword_def Let_def commit_def update_job_def fold_save_video_frame)
qed


lemma process_keyword_videos:
  "\<exists>new. videos (w_db (fst (process_keyword env jid uid u settings k st)))
            = videos (w_db (fst st)) @ new
     \<and> snd (process_keyword env jid uid u settings k st) = snd st + int (length new)
     \<and> v_video_url ` set new \<inter> v_video_url ` set (videos (w_db (fst st))) = {}
     \<and> distinct (map v_video_url new)"
proof (cases "search_keyword env settings k")
  case (Inl e)
  then show ?thesis by (intro exI[of _ "[]"]) (simp add: process_keyword_def)
next
  case (Inr vs)
  from fold_save_video_one_keyword[of uid k vs "(w_db (fst st), snd st)"]
  obtain new where
    "videos (fst (fold (save_video uid k) vs (w_db (fst st), snd st))) = videos (w_db (fst st)) @ new"
    "snd (fold (save_video uid k) vs (w_db (fst st), snd st)) = snd st + int (length new)"
    "v_video_url ` set new \<inter> v_video_url ` set (videos (w_db (fst st))) = {}"
    "distinct (map v_video_url new)" by auto
  with Inr show ?thesis
    by (intro exI[of _ new])
       (simp add: process_keyword_def Let_def commit_def update_job_def)
qed





lemma bump_bump: "bump jid m (bump jid n j) = bump jid (n + m) j"
  by (simp add: bump_def)

lemma fold_process_keyword_jobs:
  "jobs (w_db (fst (fold (process_keyword env jid uid u settings) kws st)))
     = map (\<lambda>j. if j_id j = jid
                then j\<lparr>j_keywords_processed := j_keywords_processed j
                         + int (length (filter (\<lambda>k. \<not> isl (search_keyword env settings k)) kws))\<rparr>
                else j) (jobs (w_db (fst st)))"
proof -
  have "jobs (w_db (fst (fold (process_keyword env jid uid u settings) kws st)))
          = map (bump jid (int (length (filter (\<lambda>k. \<not> isl (search_keyword env settings k)) kws))))
              (jobs (w_db (fst st)))"
  proof (induction kws arbitrary: st)
    case Nil
    show ?case by (simp add: bump_def map_idI)
  next
    case (Cons k kws)
    have step: "jobs (w_db (fst (process_keyword env jid uid u settings k st)))
                  = map (bump jid (if isl (search_keyword env settings k) then 0 else 1))
                      (jobs (w_db (fst st)))"
      by (simp add: process_keyword_jobs bump_def)
    show ?case
      by (simp add: Cons.IH step comp_def bump_bump)
  qed
  then show ?thesis by (simp add: bump_def)
qed


lemma fold_process_keyword_videos:
  "\<exists>new. videos (w_db (fst (fold (process_keyword env jid uid u settings) kws st)))
            = videos (w_db (fst st)) @ new
     \<and> snd (fold (process_keyword env jid uid u settings) kws st) = snd st + int (length new)
     \<and> v_video_url ` set new \<inter> v_video_url ` set (videos (w_db (fst st))) = {}
     \<and> distinct (map v_video_url new)"
proof (induction kws arbitrary: st)
  case Nil
  show ?case by (intro exI[of _ "[]"]) simp
next
  case (Cons k kws)
  let ?st1 = "process_keyword env jid uid u settings k st"
  let ?r = "fold (process_keyword env jid uid u settings) kws ?st1"
  from process_keyword_videos[of env jid uid u settings k st] obtain n1 where
    n1: "videos (w_db (fst ?st1)) = videos (w_db (fst st)) @ n1"
        "snd ?st1 = snd st + int (length n1)"
        "v_video_url ` set n1 \<inter> v_video_url ` set (videos (w_db (fst st))) = {}"
        "distinct (map v_video_url n1)" by blast
  from Cons.IH[of ?st1] obtain n2 where
    n2: "videos (w_db (fst ?r)) = videos (w_db (fst ?st1)) @ n2"
        "snd ?r = snd ?st1 + int (length n2)"
        "v_video_url ` set n2 \<inter> v_video_url ` set (videos (w_db (fst ?st1))) = {}"
        "distinct (map v_video_url n2)" by blast
  show ?case
    apply (rule exI[of _ "n1 @ n2"])
    using n1 n2 by (auto simp: image_Un)
qed


lemma run_scrape_job_absent:
  "get_job jid (w_db w) = None \<or> current_user uid w = None \<Longrightarrow>
   run_scrape_job env jid uid p w = w"
  by (auto simp: run_scrape_job_def get_job_def current_user_def Let_def)



lemma run_scrape_job_failed:
  assumes "get_job jid (w_db w) \<noteq> None" "current_user uid w \<noteq> None"
    and "keywords_query_fault env = Some e"
  shows "run_scrape_job env jid uid p w
           = commit (update_job jid
                       (\<lambda>j. j\<lparr>j_status := FAILED, j_error_message := Some (str_exn e),
                              j_completed_at := Some (utcnow env)\<rparr>) (job_started env jid w))"
  using assms
  by (auto simp: run_scrape_job_def get_job_def current_user_def Let_def select_keywords_def
        job_started_def)

lemma run_scrape_job_completed:
  assumes "get_job jid (w_db w) \<noteq> None" "current_user uid w = Some u"
    and "keywords_query_fault env = None"
  shows "run_scrape_job env jid uid p w
           = commit (update_job jid
                       (\<lambda>j. j\<lparr>j_status := COMPLETED,
                              j_videos_found :=
                                snd (fold (process_keyword env jid uid u
                                             (first (filter (\<lambda>s. s_user_id s = uid) (user_settings (w_db w)))))
                                       (filter (\<lambda>k. k_user_id k = uid \<and> k_is_active k
                                                  \<and> (case p of None \<Rightarrow> True | Some q \<Rightarrow> k_platform k = q))
                                          (keyword_rows (w_db w)))
                                       (job_started env jid w, 0)),
                              j_completed_at := Some (utcnow env)\<rparr>)
                       (fst (fold (process_keyword env jid uid u
                                     (first (filter (\<lambda>s. s_user_id s = uid) (user_settings (w_db w)))))
                               (filter (\<lambda>k. k_user_id k = uid \<and> k_is_active k
                                          \<and> (case p of None \<Rightarrow> True | Some q \<Rightarrow> k_platform k = q))
                                  (keyword_rows (w_db w)))
                               (job_started env jid w, 0))))"
  using assms
  by (auto simp: run_scrape_job_def get_job_def current_user_def Let_def select_keywords_def
        job_started_def commit_frame(1) update_job_frame(3))

lemma job_started_facts:
  "w_log (job_started env jid w) = w_log w @ [w_db (job_started env jid w)]"
  "job_view (w_db (job_started env jid w)) = set_status jid RUNNING (job_view (w_db w))"
  "job_seq (w_db (job_started env jid w)) = job_seq (w_db w)"
  "w_tasks (job_started env jid w) = w_tasks w"
  "users (w_db (job_started env jid w)) = users (w_db w)"
  "videos (w_db (job_started env jid w)) = videos (w_db w)"
  "keyword_rows (w_db (job_started env jid w)) = keyword_rows (w_db w)"
  "user_settings (w_db (job_started env jid w)) = user_settings (w_db w)"
  by (simp_all add: job_started_def commit_frame update_job_frame job_view_update_status)


lemma get_job_map:
  "(\<And>j. j_id (f j) = j_id j) \<Longrightarrow>
   get_job jid (d\<lparr>jobs := map f (jobs d)\<rparr>) = map_option f (get_job jid d)"
  by (simp add: get_job_def first_filter_map)

lemma select_keywords_Inr:
  "select_keywords env uid p d = Inr kws \<longleftrightarrow>
     keywords_query_fault env = None
     \<and> kws = filter (\<lambda>k. k_user_id k = uid \<and> k_is_active k
                        \<and> (case p of None \<Rightarrow> True | Some q \<Rightarrow> k_platform k = q)) (keyword_rows d)"
  by (auto simp: select_keywords_def split: option.splits)

lemma run_scrape_job_result:
  assumes job: "get_job jid (w_db w) \<noteq> None" and user: "current_user uid w = Some u"
    and sel: "select_keywords env uid p (w_db w) = Inr kws"
  shows "\<exists>new. videos (w_db (run_scrape_job env jid uid p w)) = videos (w_db w) @ new
           \<and> v_video_url ` set new \<inter> v_video_url ` set (videos (w_db w)) = {}
           \<and> distinct (map v_video_url new)
           \<and> jobs (w_db (run_scrape_job env jid uid p w))
               = map (\<lambda>j. if j_id j = jid
                          then j\<lparr>j_status := COMPLETED,
                                 j_keywords_processed := j_keywords_processed j
                                   + int (length (filter (\<lambda>k. \<not> isl (search_keyword env
                                        (first (filter (\<lambda>s. s_user_id s = uid) (user_settings (w_db w)))) k)) kws)),
                                 j_videos_found := int (length new),
                                 j_started_at := Some (utcnow env),
                                 j_completed_at := Some (utcnow env)\<rparr>
                          else j) (jobs (w_db w))"
proof -
  let ?settings = "first (filter (\<lambda>s. s_user_id s = uid) (user_settings (w_db w)))"
  let ?done = "fold (process_keyword env jid uid u ?settings) kws (job_started env jid w, 0)"
  from sel have nf: "keywords_query_fault env = None"
    and kws: "kws = filter (\<lambda>k. k_user_id k = uid \<and> k_is_active k
                        \<and> (case p of None \<Rightarrow> True | Some q \<Rightarrow> k_platform k = q)) (keyword_rows (w_db w))"
    by (simp_all add: select_keywords_Inr)
  have r: "run_scrape_job env jid uid p w
             = commit (update_job jid
                 (\<lambda>j. j\<lparr>j_status := COMPLETED, j_videos_found := snd ?done,
                        j_completed_at := Some (utcnow env)\<rparr>) (fst ?done))"
    unfolding kws by (rule run_scrape_job_completed[OF job user nf])
  from fold_process_keyword_videos[of env jid uid u ?settings kws "(job_started env jid w, 0)"]
  obtain new where new:
    "videos (w_db (fst ?done)) = videos (w_db w) @ new"
    "snd ?done = int (length new)"
    "v_video_url ` set new \<inter> v_video_url ` set (videos (w_db w)) = {}"
    "distinct (map v_video_url new)"
    by (auto simp: job_started_facts)
  have j1: "jobs (w_db (job_started env jid w))
              = map (\<lambda>j. if j_id j = jid then j\<lparr>j_status := RUNNING, j_started_at := Some (utcnow env)\<rparr> else j)
                  (jobs (w_db w))"
    by (simp add: job_started_def commit_def update_job_def)
  have j2: "jobs (w_db (fst ?done))
              = map (\<lambda>j. if j_id j = jid
                then j\<lparr>j_keywords_processed := j_keywords_processed j
                         + int (length (filter (\<lambda>k. \<not> isl (search_keyword env ?settings k)) kws))\<rparr>
                else j) (jobs (w_db (job_started env jid w)))"
    by (simp add: fold_process_keyword_jobs)
  have j3: "jobs (w_db (run_scrape_job env jid uid p w))
              = map (\<lambda>j. if j_id j = jid
                         then j\<lparr>j_status := COMPLETED, j_videos_found := snd ?done,
                                j_completed_at := Some (utcnow env)\<rparr> else j)
                  (jobs (w_db (fst ?done)))"
    unfolding r by (simp add: commit_def update_job_def)
  have v3: "videos (w_db (run_scrape_job env jid uid p w)) = videos (w_db (fst ?done))"
    unfolding r by (simp add: commit_frame update_job_frame)
  show ?thesis
    apply (rule exI[of _ new])
    apply (intro conjI)
    subgoal using new v3 by simp
    subgoal using new by simp
    subgoal using new by simp
    subgoal unfolding j3 j2 j1 using new(2) by (auto simp: comp_def)
    done
qed

lemma run_scrape_job_failed_status:
  assumes job: "get_job jid (w_db w) \<noteq> None" and user: "current_user uid w \<noteq> None"
    and fault: "keywords_query_fault env = Some e"
  shows "job_status jid (w_db (run_scrape_job env jid uid p w)) = Some FAILED"
proof -
  have "jobs (w_db (run_scrape_job env jid uid p w))
          = map (\<lambda>j. if j_id j = jid
                     then j\<lparr>j_status := FAILED, j_error_message := Some (str_exn e),
                            j_started_at := Some (utcnow env),
                            j_completed_at := Some (utcnow env)\<rparr> else j) (jobs (w_db w))"
    unfolding run_scrape_job_failed[OF job user fault]
    by (auto simp: job_started_def commit_def update_job_def comp_def)
  then have "get_job jid (w_db (run_scrape_job env jid uid p w))
               = map_option (\<lambda>j. if j_id j = jid
                     then j\<lparr>j_status := FAILED, j_error_message := Some (str_exn e),
                            j_started_at := Some (utcnow env),
                            j_completed_at := Some (utcnow env)\<rparr> else j) (get_job jid (w_db w))"
    by (simp add: get_job_def first_filter_map)
  moreover from job obtain j where j: "get_job jid (w_db w) = Some j" by auto
  moreover from j have "j_id j = jid"
    by (auto simp: get_job_def dest: first_filter_Some)
  ultimately show ?thesis by (simp add: job_status_def)
qed

subsection \<open>The search wrappers and the recency window\<close>

text \<open>
  Claim C10. The TikTok and the Instagram wrapper take the \<open>date_filter\<close> argument and
  never read it: for any two values of it, with the same remaining arguments and the
  same provider, both wrappers build the same request and return the same result
  (the same candidates, or the same exception).
\<close>

theorem date_filter_is_ignored:
  "tiktok_run_input keyword max_results min_likes date_filter1
     = tiktok_run_input keyword max_results min_likes date_filter2
   \<and> scrape_tiktok env keyword max_results min_likes date_filter1
     = scrape_tiktok env keyword max_results min_likes date_filter2
   \<and> instagram_run_input keyword max_results min_likes date_filter1
     = instagram_run_input keyword max_results min_likes date_filter2
   \<and> scrape_instagram env keyword max_results min_likes date_filter1
     = scrape_instagram env keyword max_results min_likes date_filter2"
  by (simp add: tiktok_run_input_def scrape_tiktok_def instagram_run_input_def
        scrape_instagram_def)

theorem date_filter_is_ignored_witness:
  "scrape_tiktok demo_env ''ai tools'' 10 1000 ''today''
     = scrape_tiktok demo_env ''ai tools'' 10 1000 ''this_month''
   \<and> scrape_instagram demo_env ''ai tools'' 10 1000 ''today''
     = scrape_instagram demo_env ''ai tools'' 10 1000 ''this_month''"
  using date_filter_is_ignored [of "''ai tools''" 10 1000 "''today''" "''this_month''" demo_env]
  by simp

subsection \<open>Keywords whose search fails\<close>

lemma process_keyword_search_failed:
  "search_keyword env settings k = Inl e \<Longrightarrow>
   process_keyword env job_id user_id user settings k st = st"
  by (simp add: process_keyword_def)

lemma search_keyword_youtube:
  "k_platform k = YOUTUBE \<Longrightarrow>
   search_keyword env settings k = Inl (ValueError ''Unsupported platform: youtube'')"
  by (simp add: search_keyword_def scrape_by_platform_def)

text \<open>
  Claim C9. The dispatch raises the unsupported-platform error for the platform
  \<open>YOUTUBE\<close>, whatever the other arguments are. So the loop body leaves the state and
  the video counter as they are at a YouTube keyword (no video stored, no increment of
  \<open>keywords_processed\<close>), and the loop over any list of keywords does what it does on
  the list without its YouTube keywords.
\<close>

theorem youtube_keyword_is_skipped:
  "scrape_by_platform env YOUTUBE keyword max_results min_likes date_filter
     = Inl (ValueError ''Unsupported platform: youtube'')
   \<and> (k_platform k = YOUTUBE \<longrightarrow>
        process_keyword env job_id user_id user settings k st = st)
   \<and> fold (process_keyword env job_id user_id user settings) kws st
     = fold (process_keyword env job_id user_id user settings)
         (filter (\<lambda>k. k_platform k \<noteq> YOUTUBE) kws) st"
proof (intro conjI impI)
  show "scrape_by_platform env YOUTUBE keyword max_results min_likes date_filter
          = Inl (ValueError ''Unsupported platform: youtube'')"
    by (simp add: scrape_by_platform_def)
  show "process_keyword env job_id user_id user settings k st = st" if "k_platform k = YOUTUBE"
    using that by (simp add: process_keyword_search_failed search_keyword_youtube)
  show "fold (process_keyword env job_id user_id user settings) kws st
          = fold (process_keyword env job_id user_id user settings)
              (filter (\<lambda>k. k_platform k \<noteq> YOUTUBE) kws) st"
    by (induction kws arbitrary: st)
       (simp_all add: process_keyword_search_failed search_keyword_youtube)
qed

theorem youtube_keyword_is_skipped_witness:
  "k_platform (demo_keyword 3 ''shorts'' YOUTUBE) = YOUTUBE
   \<and> process_keyword demo_env 1 1 demo_user None (demo_keyword 3 ''shorts'' YOUTUBE)
       (demo_world, 0) = (demo_world, 0)"
  using youtube_keyword_is_skipped
          [of demo_env "''shorts''" 10 1000 "''this_week''" "demo_keyword 3 ''shorts'' YOUTUBE"
              1 1 demo_user None "(demo_world, 0)" "[]"]
  by (simp add: demo_keyword_def)

subsection \<open>Counters of a completed run\<close>




text \<open>
  Claim C5. Take a run of \<open>run_scrape_job\<close> whose job and user exist and that leaves
  the job \<open>COMPLETED\<close>. The videos table afterwards is the table before followed by
  the newly inserted rows; none of the new rows has a URL that was stored before, no
  two of them share a URL; and the job's \<open>videos_found\<close> is the number of new rows.
\<close>

theorem videos_found_counts_inserted:
  assumes job: "get_job job_id (w_db w) \<noteq> None"
    and user: "current_user user_id w \<noteq> None"
    and completed: "job_status job_id (w_db (run_scrape_job env job_id user_id platform w)) = Some COMPLETED"
  shows "\<exists>new j'. videos (w_db (run_scrape_job env job_id user_id platform w)) = videos (w_db w) @ new
           \<and> (\<forall>v\<in>set new. v_video_url v \<notin> v_video_url ` set (videos (w_db w)))
           \<and> distinct (map v_video_url new)
           \<and> get_job job_id (w_db (run_scrape_job env job_id user_id platform w)) = Some j'
           \<and> j_videos_found j' = int (length new)"
proof -
  have nf: "keywords_query_fault env = None"
  proof (cases "keywords_query_fault env")
    case (Some e)
    from run_scrape_job_failed_status[OF job user Some] completed show ?thesis by simp
  qed simp
  then obtain kws where sel: "select_keywords env user_id platform (w_db w) = Inr kws"
    by (simp add: select_keywords_def)
  from user obtain u where u: "current_user user_id w = Some u" by auto
  from job obtain j where j: "get_job job_id (w_db w) = Some j" by auto
  then have jid: "j_id j = job_id"
    by (auto simp: get_job_def dest: first_filter_Some)
  from run_scrape_job_result[OF job u sel] obtain new where
    new: "videos (w_db (run_scrape_job env job_id user_id platform w)) = videos (w_db w) @ new"
         "v_video_url ` set new \<inter> v_video_url ` set (videos (w_db w)) = {}"
         "distinct (map v_video_url new)"
    and jobs: "jobs (w_db (run_scrape_job env job_id user_id platform w))
               = map (\<lambda>j. if j_id j = job_id
                          then j\<lparr>j_status := COMPLETED,
                                 j_keywords_processed := j_keywords_processed j
                                   + int (length (filter (\<lambda>k. \<not> isl (search_keyword env
                                        (first (filter (\<lambda>s. s_user_id s = user_id) (user_settings (w_db w)))) k)) kws)),
                                 j_videos_found := int (length new),
                                 j_started_at := Some (utcnow env),
                                 j_completed_at := Some (utcnow env)\<rparr>
                          else j) (jobs (w_db w))"
    by blast
  have "\<exists>j'. get_job job_id (w_db (run_scrape_job env job_id user_id platform w)) = Some j'
           \<and> j_videos_found j' = int (length new)"
    unfolding get_job_def jobs using j jid by (simp add: first_filter_map get_job_def)
  with new show ?thesis by blast
qed


theorem videos_found_counts_inserted_witness:
  "get_job 1 (w_db demo_started) \<noteq> None
   \<and> current_user 1 demo_started \<noteq> None
   \<and> job_status 1 (w_db (run_scrape_job demo_env 1 1 None demo_started)) = Some COMPLETED
   \<and> (\<exists>new j'. videos (w_db (run_scrape_job demo_env 1 1 None demo_started))
                      = videos (w_db demo_started) @ new
           \<and> get_job 1 (w_db (run_scrape_job demo_env 1 1 None demo_started)) = Some j'
           \<and> j_videos_found j' = int (length new))"
proof -
  have h1: "get_job 1 (w_db demo_started) \<noteq> None" by code_simp
  have h2: "current_user 1 demo_started \<noteq> None" by code_simp
  have h3: "job_status 1 (w_db (run_scrape_job demo_env 1 1 None demo_started)) = Some COMPLETED"
    by code_simp
  from videos_found_counts_inserted[OF h1 h2 h3] show ?thesis
    using h1 h2 h3 by blast
qed

subsection \<open>Transcription\<close>

lemma update_video_frame:
  "users (w_db (update_video vid f w)) = users (w_db w)"
  "user_settings (w_db (update_video vid f w)) = user_settings (w_db w)"
  "keyword_rows (w_db (update_video vid f w)) = keyword_rows (w_db w)"
  "jobs (w_db (update_video vid f w)) = jobs (w_db w)"
  "job_seq (w_db (update_video vid f w)) = job_seq (w_db w)"
  "w_log (update_video vid f w) = w_log w"
  "w_tasks (update_video vid f w) = w_tasks w"
  "w_sheets (update_video vid f w) = w_sheets w"
  by (simp_all add: update_video_def)

lemma get_video_id: "get_video vid d = Some v \<Longrightarrow> v_id v = vid"
  by (auto simp: get_video_def dest: first_filter_Some)

lemma get_video_map:
  "(\<And>v. v_id (f v) = v_id v) \<Longrightarrow>
   get_video vid (d\<lparr>videos := map f (videos d)\<rparr>) = map_option f (get_video vid d)"
  by (simp add: get_video_def first_filter_map)


lemma run_transcription_job_failed:
  assumes "get_video vid (w_db w) = Some v"
    and "transcribe_video (mkdtemp env) (ydl_download env) (whisper_transcribe env) (v_video_url v) = Inl e"
  shows "run_transcription_job env vid w
           = commit (update_video vid (\<lambda>v. v\<lparr>v_transcription_status := ''failed''\<rparr>)
                       (processing_started vid w))"
  using assms by (simp add: run_transcription_job_def get_video_def Let_def processing_started_def)

lemma run_transcription_job_succeeded:
  assumes "get_video vid (w_db w) = Some v"
    and "transcribe_video (mkdtemp env) (ydl_download env) (whisper_transcribe env) (v_video_url v) = Inr t"
  shows "w_db (run_transcription_job env vid w)
           = w_db (commit (update_video vid
                        (\<lambda>v. v\<lparr>v_transcription := Some t, v_transcription_status := ''completed''\<rparr>)
                        (processing_started vid w)))"
    and "w_log (run_transcription_job env vid w)
           = w_log (commit (update_video vid
                        (\<lambda>v. v\<lparr>v_transcription := Some t, v_transcription_status := ''completed''\<rparr>)
                        (processing_started vid w)))"
    and "w_tasks (run_transcription_job env vid w) = w_tasks w"
  using assms
  by (auto simp: run_transcription_job_def get_video_def Let_def processing_started_def
        commit_def update_video_def split: option.splits sum.splits)

lemma processing_started_facts:
  "w_log (processing_started vid w) = w_log w @ [w_db (processing_started vid w)]"
  "videos (w_db (processing_started vid w))
     = map (\<lambda>v. if v_id v = vid then v\<lparr>v_transcription_status := ''processing''\<rparr> else v)
         (videos (w_db w))"
  "jobs (w_db (processing_started vid w)) = jobs (w_db w)"
  "job_seq (w_db (processing_started vid w)) = job_seq (w_db w)"
  "users (w_db (processing_started vid w)) = users (w_db w)"
  "w_tasks (processing_started vid w) = w_tasks w"
  by (simp_all add: processing_started_def commit_def update_video_def)

lemma first_filter_stronger:
  "first (filter P xs) = Some x \<Longrightarrow> Q x \<Longrightarrow> first (filter (\<lambda>y. P y \<and> Q y) xs) = Some x"
  by (induction xs) (auto simp: first_def split: if_splits)

text \<open>
  Claim C6, as amended. Take a run of \<open>run_transcription_job\<close> on a stored video. If
  the pipeline fails, the video gets status \<open>failed\<close> and nothing else of it changes:
  no transcript is written, an unset transcript stays unset. If the pipeline returns a
  text, that text is stored and the status is \<open>completed\<close>. A new start on a video
  of the user that is \<open>failed\<close> is accepted and schedules the run, so a successful
  second run stores what the pipeline returned. That text can be empty: the speech
  model may recognise no segment.
\<close>

theorem pipeline_result_is_recorded:
  assumes video: "get_video video_id (w_db w) = Some v"
  shows "(\<forall>e. transcribe_video (mkdtemp env) (ydl_download env) (whisper_transcribe env)
               (v_video_url v) = Inl e \<longrightarrow>
            get_video video_id (w_db (run_transcription_job env video_id w))
              = Some (v\<lparr>v_transcription_status := ''failed''\<rparr>))
       \<and> (\<forall>t. transcribe_video (mkdtemp env) (ydl_download env) (whisper_transcribe env)
               (v_video_url v) = Inr t \<longrightarrow>
            get_video video_id (w_db (run_transcription_job env video_id w))
              = Some (v\<lparr>v_transcription := Some t, v_transcription_status := ''completed''\<rparr>))
       \<and> (v_user_id v = u_id user \<and> v_transcription_status v = ''failed'' \<longrightarrow>
            start_transcription user video_id w
              = (Inr video_id, w\<lparr>w_tasks := w_tasks w @ [TranscriptionTask video_id]\<rparr>))"
proof (intro conjI allI impI)
  fix e
  assume f: "transcribe_video (mkdtemp env) (ydl_download env) (whisper_transcribe env)
               (v_video_url v) = Inl e"
  have "videos (w_db (run_transcription_job env video_id w))
          = map (\<lambda>v. if v_id v = video_id then v\<lparr>v_transcription_status := ''failed''\<rparr> else v)
              (videos (w_db w))"
    unfolding run_transcription_job_failed[OF video f]
    by (auto simp: processing_started_def commit_def update_video_def)
  then show "get_video video_id (w_db (run_transcription_job env video_id w))
              = Some (v\<lparr>v_transcription_status := ''failed''\<rparr>)"
    using video get_video_id[OF video] by (simp add: get_video_def first_filter_map)
next
  fix t
  assume s: "transcribe_video (mkdtemp env) (ydl_download env) (whisper_transcribe env)
               (v_video_url v) = Inr t"
  have "videos (w_db (run_transcription_job env video_id w))
          = map (\<lambda>v. if v_id v = video_id
                     then v\<lparr>v_transcription := Some t, v_transcription_status := ''completed''\<rparr>
                     else v) (videos (w_db w))"
    unfolding run_transcription_job_succeeded(1)[OF video s]
    by (auto simp: processing_started_def commit_def update_video_def)
  then show "get_video video_id (w_db (run_transcription_job env video_id w))
              = Some (v\<lparr>v_transcription := Some t, v_transcription_status := ''completed''\<rparr>)"
    using video get_video_id[OF video] by (simp add: get_video_def first_filter_map)
next
  assume a: "v_user_id v = u_id user \<and> v_transcription_status v = ''failed''"
  from video a have "first (filter (\<lambda>x. v_id x = video_id \<and> v_user_id x = u_id user)
                              (videos (w_db w))) = Some v"
    unfolding get_video_def by (intro first_filter_stronger) simp_all
  then show "start_transcription user video_id w
              = (Inr video_id, w\<lparr>w_tasks := w_tasks w @ [TranscriptionTask video_id]\<rparr>)"
    using a get_video_id[OF video] by (simp add: start_transcription_def)
qed

theorem pipeline_result_is_recorded_witness:
  "get_video 1 (w_db demo_failed) \<noteq> None
   \<and> map_option (\<lambda>v. (v_transcription_status v, v_transcription v))
        (get_video 1 (w_db (run_transcription_job demo_env_speech 1 demo_failed)))
      = Some (''completed'', Some ''hello world'')
   \<and> map_option (\<lambda>v. (v_transcription_status v, v_transcription v))
        (get_video 1 (w_db (run_transcription_job demo_env_offline 1 demo_scraped)))
      = Some (''failed'', None)
   \<and> fst (start_transcription demo_user 1 demo_failed) = Inr 1"
proof -
  obtain v where v: "get_video 1 (w_db demo_failed) = Some v"
    and vf: "v_transcription v = None" "v_video_url v = Some ''a''"
    and vo: "v_user_id v = u_id demo_user" "v_transcription_status v = ''failed''"
  proof -
    have "get_video 1 (w_db demo_failed) \<noteq> None
          \<and> map_option v_transcription (get_video 1 (w_db demo_failed)) = Some None
          \<and> map_option v_video_url (get_video 1 (w_db demo_failed)) = Some (Some ''a'')
          \<and> map_option v_user_id (get_video 1 (w_db demo_failed)) = Some (u_id demo_user)
          \<and> map_option v_transcription_status (get_video 1 (w_db demo_failed)) = Some ''failed''"
      by code_simp
    then show ?thesis using that by auto
  qed
  obtain v' where v': "get_video 1 (w_db demo_scraped) = Some v'"
    and vf': "v_transcription v' = None" "v_video_url v' = Some ''a''"
  proof -
    have "get_video 1 (w_db demo_scraped) \<noteq> None
          \<and> map_option v_transcription (get_video 1 (w_db demo_scraped)) = Some None
          \<and> map_option v_video_url (get_video 1 (w_db demo_scraped)) = Some (Some ''a'')"
      by code_simp
    then show ?thesis using that by auto
  qed
  have p1: "transcribe_video (mkdtemp demo_env_speech) (ydl_download demo_env_speech)
              (whisper_transcribe demo_env_speech) (Some ''a'') = Inr ''hello world''"
    by code_simp
  have p2: "transcribe_video (mkdtemp demo_env_offline) (ydl_download demo_env_offline)
              (whisper_transcribe demo_env_offline) (Some ''a'')
              = Inl (ExternalError ''download failed'')"
    by code_simp
  from pipeline_result_is_recorded[OF v, of demo_env_speech demo_user] p1 vf
  have a: "get_video 1 (w_db (run_transcription_job demo_env_speech 1 demo_failed))
             = Some (v\<lparr>v_transcription := Some ''hello world'', v_transcription_status := ''completed''\<rparr>)"
    by simp
  from pipeline_result_is_recorded[OF v, of demo_env_speech demo_user] vo
  have c: "fst (start_transcription demo_user 1 demo_failed) = Inr 1"
    by simp
  from pipeline_result_is_recorded[OF v', of demo_env_offline demo_user] p2 vf'
  have b: "get_video 1 (w_db (run_transcription_job demo_env_offline 1 demo_scraped))
             = Some (v'\<lparr>v_transcription_status := ''failed''\<rparr>)"
    by simp
  show ?thesis using v a b c vf' by simp
qed

text \<open>
  The claim C6 as first stated asks for a non-empty transcript after a successful second
  run. Here the first run fails on the download, the second one succeeds on a recording
  without speech: the video ends \<open>completed\<close> with the empty transcript.
\<close>

theorem retrigger_stores_empty_transcript:
  "map_option (\<lambda>v. (v_transcription_status v, v_transcription v)) (get_video 1 (w_db demo_failed))
     = Some (''failed'', None)
   \<and> transcribe_video (mkdtemp demo_env) (ydl_download demo_env) (whisper_transcribe demo_env)
       (Some ''a'') = Inr []
   \<and> map_option (\<lambda>v. (v_transcription_status v, v_transcription v))
       (get_video 1 (w_db (exec [(demo_env, StartTranscription 1 1), (demo_env, RunTask 0)]
                             demo_failed)))
     = Some (''completed'', Some [])"
  by code_simp

text \<open>
  Claim C7, as amended. For a stored video of the user: if its status is
  \<open>processing\<close>, \<open>start_transcription\<close> answers 400 (already in progress) and
  changes nothing; in every other status it answers with the video id and appends the
  transcription task to the queue, and changes nothing else, so the stored status stays
  what it was. The status \<open>processing\<close> is the first write of the scheduled run.
\<close>

theorem start_transcription_outcome:
  assumes video: "get_video video_id (w_db w) = Some v" and owner: "v_user_id v = u_id user"
  shows "(v_transcription_status v = ''processing'' \<longrightarrow>
            start_transcription user video_id w
              = (Inl (HTTPException 400 ''Transcription already in progress''), w))
       \<and> (v_transcription_status v \<noteq> ''processing'' \<longrightarrow>
            start_transcription user video_id w
              = (Inr video_id, w\<lparr>w_tasks := w_tasks w @ [TranscriptionTask video_id]\<rparr>))
       \<and> (\<exists>d rest. w_log (run_transcription_job env video_id w) = w_log w @ d # rest
             \<and> get_video video_id d = Some (v\<lparr>v_transcription_status := ''processing''\<rparr>))"
proof -
  from video owner have own: "first (filter (\<lambda>x. v_id x = video_id \<and> v_user_id x = u_id user)
                              (videos (w_db w))) = Some v"
    unfolding get_video_def by (intro first_filter_stronger) simp_all
  have started: "get_video video_id (w_db (processing_started video_id w))
                   = Some (v\<lparr>v_transcription_status := ''processing''\<rparr>)"
    using video get_video_id[OF video]
    by (simp add: processing_started_facts get_video_def first_filter_map)
  have log: "\<exists>rest. w_log (run_transcription_job env video_id w)
                      = w_log w @ w_db (processing_started video_id w) # rest"
  proof (cases "transcribe_video (mkdtemp env) (ydl_download env) (whisper_transcribe env)
                  (v_video_url v)")
    case (Inl e)
    show ?thesis
      unfolding run_transcription_job_failed[OF video Inl]
      by (simp add: commit_frame update_video_frame processing_started_facts)
  next
    case (Inr t)
    show ?thesis
      unfolding run_transcription_job_succeeded(2)[OF video Inr]
      by (simp add: commit_frame update_video_frame processing_started_facts)
  qed
  show ?thesis
    using own get_video_id[OF video] started log
    by (auto simp: start_transcription_def)
qed

theorem start_transcription_outcome_witness:
  "get_video 1 (w_db demo_scraped) \<noteq> None
   \<and> fst (start_transcription demo_user 1 demo_scraped) = Inr 1
   \<and> w_db (snd (start_transcription demo_user 1 demo_scraped)) = w_db demo_scraped
   \<and> map_option v_transcription_status (get_video 1 (w_db (processing_started 1 demo_scraped)))
       = Some ''processing''
   \<and> start_transcription demo_user 1 (processing_started 1 demo_scraped)
       = (Inl (HTTPException 400 ''Transcription already in progress''),
          processing_started 1 demo_scraped)"
proof -
  obtain v where v: "get_video 1 (w_db demo_scraped) = Some v"
    and vf: "v_user_id v = u_id demo_user" "v_transcription_status v \<noteq> ''processing''"
  proof -
    have "get_video 1 (w_db demo_scraped) \<noteq> None
          \<and> map_option v_user_id (get_video 1 (w_db demo_scraped)) = Some (u_id demo_user)
          \<and> map_option v_transcription_status (get_video 1 (w_db demo_scraped)) = Some ''pending''"
      by code_simp
    then show ?thesis using that by auto
  qed
  obtain p where p: "get_video 1 (w_db (processing_started 1 demo_scraped)) = Some p"
    and pf: "v_user_id p = u_id demo_user" "v_transcription_status p = ''processing''"
  proof -
    have "get_video 1 (w_db (processing_started 1 demo_scraped)) \<noteq> None
          \<and> map_option v_user_id (get_video 1 (w_db (processing_started 1 demo_scraped)))
              = Some (u_id demo_user)
          \<and> map_option v_transcription_status
                (get_video 1 (w_db (processing_started 1 demo_scraped))) = Some ''processing''"
      by code_simp
    then show ?thesis using that by auto
  qed
  from start_transcription_outcome[OF v vf(1), of demo_env] vf(2)
  have a: "start_transcription demo_user 1 demo_scraped
          = (Inr 1, demo_scraped\<lparr>w_tasks := w_tasks demo_scraped @ [TranscriptionTask 1]\<rparr>)"
    by simp
  from start_transcription_outcome[OF p pf(1), of demo_env] pf(2)
  have b: "start_transcription demo_user 1 (processing_started 1 demo_scraped)
       = (Inl (HTTPException 400 ''Transcription already in progress''),
          processing_started 1 demo_scraped)"
    by simp
  show ?thesis using v a b p pf by simp
qed

text \<open>
  The claim C7 as first stated lets the accepted start set the status to
  \<open>processing\<close>. Here a \<open>pending\<close> video is started: the request is accepted and
  the stored status is not \<open>processing\<close> afterwards.
\<close>

theorem start_leaves_status_pending:
  "map_option v_transcription_status (get_video 1 (w_db demo_scraped)) = Some ''pending''
   \<and> fst (start_transcription demo_user 1 demo_scraped) = Inr 1
   \<and> map_option v_transcription_status
       (get_video 1 (w_db (snd (start_transcription demo_user 1 demo_scraped))))
     \<noteq> Some ''processing''"
  by code_simp

subsection \<open>The mirror\<close>

lemma add_videos_batch_returns:
  "\<exists>r. add_videos_batch now m sheet_id vs platform keyword = Inr r"
  by (cases "add_videos_batch_body now m sheet_id vs platform keyword")
     (auto simp: add_videos_batch_def)

lemma update_transcription_in_sheet_returns:
  "\<exists>r. update_transcription_in_sheet m sheet_id url platform t status = Inr r"
  by (cases "update_transcription_in_sheet_body m sheet_id url platform t status")
     (auto simp: update_transcription_in_sheet_def)

lemma process_keyword_same_store:
  assumes "same_store (fst st) (fst st')" "snd st = snd st'"
  shows "same_store (fst (process_keyword env jid uid u settings k st))
                    (fst (process_keyword env jid uid u settings k st'))
       \<and> snd (process_keyword env jid uid u settings k st)
           = snd (process_keyword env jid uid u settings k st')"
  using assms
  by (cases "search_keyword env settings k")
     (simp_all add: process_keyword_def Let_def commit_def update_job_def same_store_def)

lemma fold_process_keyword_same_store:
  assumes "same_store (fst st) (fst st')" "snd st = snd st'"
  shows "same_store (fst (fold (process_keyword env jid uid u settings) kws st))
                    (fst (fold (process_keyword env jid uid u settings) kws st'))
       \<and> snd (fold (process_keyword env jid uid u settings) kws st)
           = snd (fold (process_keyword env jid uid u settings) kws st')"
  using assms
proof (induction kws arbitrary: st st')
  case Nil
  then show ?case by simp
next
  case (Cons k kws)
  from process_keyword_same_store[OF Cons.prems]
  have "same_store (fst (process_keyword env jid uid u settings k st))
                    (fst (process_keyword env jid uid u settings k st'))"
    and "snd (process_keyword env jid uid u settings k st)
           = snd (process_keyword env jid uid u settings k st')" by auto
  from Cons.IH[OF this] show ?case by simp
qed

lemma commit_update_job_same_store:
  "same_store w w' \<Longrightarrow> same_store (commit (update_job jid f w)) (commit (update_job jid f w'))"
  by (simp add: same_store_def commit_def update_job_def)

lemma run_scrape_job_same_store:
  assumes "same_store w w'"
  shows "same_store (run_scrape_job env jid uid p w) (run_scrape_job env jid uid p w')"
proof -
  have db: "w_db w' = w_db w" using assms by (simp add: same_store_def)
  have cu: "current_user uid w' = current_user uid w" by (simp add: current_user_def db)
  have s1: "same_store (job_started env jid w) (job_started env jid w')"
    unfolding job_started_def by (rule commit_update_job_same_store[OF assms])
  show ?thesis
  proof (cases "get_job jid (w_db w) = None \<or> current_user uid w = None")
    case True
    then show ?thesis
      using assms run_scrape_job_absent[of jid w uid env p] run_scrape_job_absent[of jid w' uid env p]
      by (simp add: db cu)
  next
    case False
    then have job: "get_job jid (w_db w) \<noteq> None" and job': "get_job jid (w_db w') \<noteq> None"
      and "current_user uid w \<noteq> None" by (simp_all add: db)
    then obtain u where u: "current_user uid w = Some u" and u': "current_user uid w' = Some u"
      by (auto simp: cu)
    show ?thesis
    proof (cases "keywords_query_fault env")
      case (Some e)
      show ?thesis
        using u u'
        by (simp add: run_scrape_job_failed[OF job _ Some] run_scrape_job_failed[OF job' _ Some]
              commit_update_job_same_store[OF s1])
    next
      case None
      let ?settings = "first (filter (\<lambda>s. s_user_id s = uid) (user_settings (w_db w)))"
      let ?kws = "filter (\<lambda>k. k_user_id k = uid \<and> k_is_active k
                          \<and> (case p of None \<Rightarrow> True | Some q \<Rightarrow> k_platform k = q))
                (keyword_rows (w_db w))"
      from fold_process_keyword_same_store[of "(job_started env jid w, 0)"
             "(job_started env jid w', 0)" env jid uid u ?settings ?kws] s1
      have f: "same_store (fst (fold (process_keyword env jid uid u ?settings) ?kws (job_started env jid w, 0)))
                          (fst (fold (process_keyword env jid uid u ?settings) ?kws (job_started env jid w', 0)))"
        and g: "snd (fold (process_keyword env jid uid u ?settings) ?kws (job_started env jid w', 0))
                  = snd (fold (process_keyword env jid uid u ?settings) ?kws (job_started env jid w, 0))"
        by auto
      show ?thesis
        unfolding run_scrape_job_completed[OF job u None] run_scrape_job_completed[OF job' u' None]
        unfolding db g
        by (rule commit_update_job_same_store[OF f])
    qed
  qed
qed

lemma run_transcription_job_same_store:
  assumes "same_store w w'"
  shows "same_store (run_transcription_job env vid w) (run_transcription_job env vid w')"
  using assms
  by (auto simp: run_transcription_job_def Let_def same_store_def commit_def update_video_def
        split: option.splits sum.splits)

lemma step_same_store:
  assumes "same_store w w'"
  shows "same_store (step ev w) (step ev w')"
proof (cases ev)
  case (Pair env e)
  show ?thesis
  proof (cases e)
    case (StartScrapeJob uid p)
    with Pair assms show ?thesis
      by (auto simp: current_user_def start_scrape_job_def Let_def same_store_def commit_def
            split: option.splits)
  next
    case (StartTranscription uid vid)
    with Pair assms show ?thesis
      by (auto simp: current_user_def start_transcription_def Let_def same_store_def
            split: option.splits)
  next
    case (TranscribeAllPending uid)
    with Pair assms show ?thesis
      by (auto simp: current_user_def transcribe_all_pending_def Let_def same_store_def
            split: option.splits)
  next
    case (RunTask i)
    have t: "w_tasks w = w_tasks w'" using assms by (simp add: same_store_def)
    have s: "same_store (w\<lparr>w_tasks := take i (w_tasks w) @ drop (Suc i) (w_tasks w)\<rparr>)
                        (w'\<lparr>w_tasks := take i (w_tasks w') @ drop (Suc i) (w_tasks w')\<rparr>)"
      using assms by (simp add: same_store_def)
    show ?thesis
    proof (cases "i < length (w_tasks w)")
      case True
      show ?thesis
      proof (cases "w_tasks w ! i")
        case (ScrapeTask jid uid p)
        with True t Pair RunTask run_scrape_job_same_store[OF s] show ?thesis by simp
      next
        case (TranscriptionTask vid)
        with True t Pair RunTask run_transcription_job_same_store[OF s] show ?thesis by simp
      qed
    next
      case False
      with t Pair RunTask assms show ?thesis by simp
    qed
  qed
qed

lemma exec_same_store:
  "same_store w w' \<Longrightarrow> same_store (exec evs w) (exec evs w')"
  unfolding exec_def
  by (induction evs arbitrary: w w') (simp_all add: step_same_store)

text \<open>
  Claim C8. The two mirror operations always return: when the body of
  \<open>add_videos_batch\<close> or of \<open>update_transcription_in_sheet\<close> raises, the caller gets
  0 or \<open>False\<close> and the mirror is as it was. And two worlds that differ in the mirror
  at most (one failing, one working, one doing nothing) still differ in the mirror at
  most after the same scrape run, the same transcription run, or the same serialized
  execution: the store, the log of committed snapshots and the task queue are equal.
\<close>

theorem mirror_failures_are_swallowed:
  "(\<exists>r. add_videos_batch now m sheet_id vs platform keyword = Inr r)
   \<and> (\<forall>e. add_videos_batch_body now m sheet_id vs platform keyword = Inl e \<longrightarrow>
          add_videos_batch now m sheet_id vs platform keyword = Inr (0, m))
   \<and> (\<exists>r. update_transcription_in_sheet m sheet_id url platform t status = Inr r)
   \<and> (\<forall>e. update_transcription_in_sheet_body m sheet_id url platform t status = Inl e \<longrightarrow>
          update_transcription_in_sheet m sheet_id url platform t status = Inr (False, m))
   \<and> (same_store w w' \<longrightarrow>
        same_store (run_scrape_job env job_id user_id p w) (run_scrape_job env job_id user_id p w')
        \<and> same_store (run_transcription_job env video_id w) (run_transcription_job env video_id w')
        \<and> same_store (exec evs w) (exec evs w'))"
  using add_videos_batch_returns[of now m sheet_id vs platform keyword]
        update_transcription_in_sheet_returns[of m sheet_id url platform t status]
  by (simp add: run_scrape_job_same_store run_transcription_job_same_store exec_same_store
        add_videos_batch_def update_transcription_in_sheet_def)

theorem mirror_failures_are_swallowed_witness:
  "same_store (demo_sheet_world demo_mirror) (demo_sheet_world demo_mirror_ok)
   \<and> isl (add_videos_batch_body 100 demo_mirror ''sheet'' [] TIKTOK ''ai tools'')
   \<and> \<not> isl (add_videos_batch_body 100 demo_mirror_ok ''sheet'' [] TIKTOK ''ai tools'')
   \<and> same_store (exec demo_events (demo_sheet_world demo_mirror))
                 (exec demo_events (demo_sheet_world demo_mirror_ok))"
proof -
  have h: "same_store (demo_sheet_world demo_mirror) (demo_sheet_world demo_mirror_ok)"
    by (simp add: same_store_def demo_sheet_world_def)
  have a: "isl (add_videos_batch_body 100 demo_mirror ''sheet'' [] TIKTOK ''ai tools'')"
    by code_simp
  have b: "\<not> isl (add_videos_batch_body 100 demo_mirror_ok ''sheet'' [] TIKTOK ''ai tools'')"
    by code_simp
  from mirror_failures_are_swallowed
         [where w = "demo_sheet_world demo_mirror" and w' = "demo_sheet_world demo_mirror_ok"
            and evs = demo_events]
       h a b
  show ?thesis by simp
qed

subsection \<open>Serialized executions: lifecycle, admission, unique URLs\<close>























































end
